theory Spec2Isabelle
  imports Complex_Main
begin

section \<open>The students table and the engine that holds it\<close>

text \<open>
  The request structs of \<^verbatim>\<open>duckdb_demo.go\<close> carry \<^verbatim>\<open>Name\<close>, \<^verbatim>\<open>Age\<close>, \<^verbatim>\<open>GPA\<close> and
  \<^verbatim>\<open>OrganizationName\<close> (called \<^verbatim>\<open>Org\<close> in the bulk handler); the \<^verbatim>\<open>Student\<close> struct
  that rows are scanned into has the same fields and \<^verbatim>\<open>ID\<close>. A Go \<^verbatim>\<open>int\<close> is an
  integer (64 bits; the handlers only compare it). A \<^verbatim>\<open>float64\<close> that came out of a
  JSON number is finite, hence a rational, and the handlers only compare and format it:
  the GPA is a \<open>rat\<close>. Strings are byte strings, as in Go.
\<close>

record student_in =
  Name :: string
  Age :: int
  GPA :: rat
  OrganizationName :: string

record student = student_in +
  ID :: int

text \<open>The table \<^verbatim>\<open>students\<close> of \<^verbatim>\<open>initDB\<close>, in insertion order.\<close>

type_synonym table = "student list"

definition mk_row :: "int \<Rightarrow> string \<Rightarrow> int \<Rightarrow> rat \<Rightarrow> string \<Rightarrow> student" where
  "mk_row i n a g org = \<lparr>Name = n, Age = a, GPA = g, OrganizationName = org, ID = i\<rparr>"

text \<open>
  Errors of the engine. The first three come from the schema of \<^verbatim>\<open>initDB\<close>
  (\<^verbatim>\<open>id BIGINT PRIMARY KEY\<close>, \<^verbatim>\<open>age INTEGER\<close>) and from 64-bit SQL arithmetic;
  \<open>ConversionError\<close> is a bound text that is no \<^verbatim>\<open>BIGINT\<close>, \<open>SyntaxError\<close> a statement
  text the engine cannot read; \<open>Fault\<close> is any other failure of a call (I/O, a closed
  connection), with the text the driver gives.
\<close>

datatype db_error =
  PrimaryKeyViolation
  | IntegerOutOfRange
  | BigintOverflow
  | ConversionError
  | SyntaxError
  | Fault string

text \<open>
  The calls a handler makes to \<^verbatim>\<open>database/sql\<close>. Which of them fail for a reason outside
  the table is an input of every handler: \<open>flt c = Some e\<close> says that call \<open>c\<close> returns the
  error \<open>e\<close>. \<open>Exec k\<close> is the \<open>k\<close>-th statement executed by the handler.
\<close>

datatype db_call = QueryRow | Query | Scan | BeginTx | Prepare | Exec nat | Commit

type_synonym faults = "db_call \<Rightarrow> db_error option"

definition no_faults :: faults where
  "no_faults = (\<lambda>c. None)"

definition INT32_MIN :: int where "INT32_MIN = - (2 ^ 31)"
definition INT32_MAX :: int where "INT32_MAX = 2 ^ 31 - 1"
definition INT64_MIN :: int where "INT64_MIN = - (2 ^ 63)"
definition INT64_MAX :: int where "INT64_MAX = 2 ^ 63 - 1"

text \<open>
  \<^verbatim>\<open>INSERT INTO students (id, name, age, gpa, organization_name) VALUES (?, ?, ?, ?, ?)\<close>
  under the schema: the primary key rejects an id that is present, the \<^verbatim>\<open>INTEGER\<close>
  column rejects an age outside 32 bits. The value of the \<^verbatim>\<open>gpa\<close> column is the value
  bound to the statement (the engine's own rounding to its \<^verbatim>\<open>FLOAT\<close> is not modelled).
\<close>

definition insert_row :: "table \<Rightarrow> student \<Rightarrow> db_error + table" where
  "insert_row t r =
     (if ID r \<in> set (map ID t) then Inl PrimaryKeyViolation
      else if Age r < INT32_MIN \<or> INT32_MAX < Age r then Inl IntegerOutOfRange
      else Inr (t @ [r]))"

definition exec_insert :: "faults \<Rightarrow> nat \<Rightarrow> table \<Rightarrow> student \<Rightarrow> db_error + table" where
  "exec_insert flt k t r =
     (case flt (Exec k) of Some e \<Rightarrow> Inl e | None \<Rightarrow> insert_row t r)"

text \<open>SQL \<^verbatim>\<open>MAX\<close>: \<open>None\<close> is \<^verbatim>\<open>NULL\<close>, the value on no rows.\<close>

fun sql_max :: "int list \<Rightarrow> int option" where
  "sql_max [] = None"
| "sql_max (x # xs) = (case sql_max xs of None \<Rightarrow> Some x | Some m \<Rightarrow> Some (max x m))"

text \<open>\<^verbatim>\<open>COALESCE(MAX(id), 0)\<close> over the table.\<close>

definition coalesce_max_id :: "table \<Rightarrow> int" where
  "coalesce_max_id t = (case sql_max (map ID t) of None \<Rightarrow> 0 | Some m \<Rightarrow> m)"

text \<open>
  \<^verbatim>\<open>SELECT COALESCE(MAX(id), 0) + 1 FROM students\<close>, scanned into an \<^verbatim>\<open>int64\<close>: the
  addition is the engine's and is checked, so it fails instead of wrapping.
\<close>

definition query_next_id :: "faults \<Rightarrow> table \<Rightarrow> db_error + int" where
  "query_next_id flt t =
     (case flt QueryRow of
        Some e \<Rightarrow> Inl e
      | None \<Rightarrow>
          if INT64_MAX < coalesce_max_id t + 1 then Inl BigintOverflow
          else Inr (coalesce_max_id t + 1))"

text \<open>\<^verbatim>\<open>SELECT COALESCE(MAX(id), 0) FROM students\<close>.\<close>

definition query_max_id :: "faults \<Rightarrow> table \<Rightarrow> db_error + int" where
  "query_max_id flt t =
     (case flt QueryRow of Some e \<Rightarrow> Inl e | None \<Rightarrow> Inr (coalesce_max_id t))"

section \<open>Responses\<close>

text \<open>
  A message is a literal of the source, or a literal followed by \<^verbatim>\<open>err.Error()\<close> of an
  engine error. \<open>Plain\<close> is the body \<^verbatim>\<open>http.Error\<close> writes, \<open>ErrorJSON\<close> the object
  \<^verbatim>\<open>{"error": msg}\<close> of \<^verbatim>\<open>jsonError\<close>; the other bodies are the JSON values the handlers
  encode. \<open>NoBody\<close> is a response to which the handler wrote nothing.
\<close>

datatype message = Msg string | MsgErr string db_error

datatype payload =
  Plain message
  | ErrorJSON message
  | CreatedJSON int string
  | MessageJSON string
  | BulkJSON string nat
  | StudentsJSON "student list"
  | NoBody

record response =
  status :: nat
  body :: payload

definition http_Error :: "message \<Rightarrow> nat \<Rightarrow> response" where
  "http_Error msg code = \<lparr>status = code, body = Plain msg\<rparr>"

definition jsonError :: "nat \<Rightarrow> message \<Rightarrow> response" where
  "jsonError st msg = \<lparr>status = st, body = ErrorJSON msg\<rparr>"

section \<open>\<^verbatim>\<open>strings.TrimSpace\<close>\<close>

text \<open>
  \<^verbatim>\<open>strings.TrimSpace\<close> removes the leading and trailing runes for which
  \<^verbatim>\<open>unicode.IsSpace\<close> holds. On a string of valid UTF-8 (what the JSON decoder returns)
  that is removing the leading and trailing byte sequences below: the UTF-8 encodings of
  U+0009 to U+000D, U+0020, U+0085, U+00A0, U+1680, U+2000 to U+200A, U+2028, U+2029,
  U+202F, U+205F and U+3000.
\<close>

definition white_space :: "string list" where
  "white_space =
     [[CHR 0x09], [CHR 0x0A], [CHR 0x0B], [CHR 0x0C], [CHR 0x0D], [CHR 0x20],
      [CHR 0xC2, CHR 0x85], [CHR 0xC2, CHR 0xA0],
      [CHR 0xE1, CHR 0x9A, CHR 0x80],
      [CHR 0xE2, CHR 0x80, CHR 0x80], [CHR 0xE2, CHR 0x80, CHR 0x81],
      [CHR 0xE2, CHR 0x80, CHR 0x82], [CHR 0xE2, CHR 0x80, CHR 0x83],
      [CHR 0xE2, CHR 0x80, CHR 0x84], [CHR 0xE2, CHR 0x80, CHR 0x85],
      [CHR 0xE2, CHR 0x80, CHR 0x86], [CHR 0xE2, CHR 0x80, CHR 0x87],
      [CHR 0xE2, CHR 0x80, CHR 0x88], [CHR 0xE2, CHR 0x80, CHR 0x89],
      [CHR 0xE2, CHR 0x80, CHR 0x8A],
      [CHR 0xE2, CHR 0x80, CHR 0xA8], [CHR 0xE2, CHR 0x80, CHR 0xA9],
      [CHR 0xE2, CHR 0x80, CHR 0xAF], [CHR 0xE2, CHR 0x81, CHR 0x9F],
      [CHR 0xE3, CHR 0x80, CHR 0x80]]"

text \<open>The number of bytes of the white-space rune that \<open>s\<close> starts with; 0 if none.\<close>

definition space_len :: "string \<Rightarrow> nat" where
  "space_len s =
     (case filter (\<lambda>w. take (length w) s = w) white_space of
        [] \<Rightarrow> 0
      | w # ws \<Rightarrow> length w)"

function TrimLeft :: "string \<Rightarrow> string" where
  "TrimLeft s = (if space_len s = 0 \<or> s = [] then s else TrimLeft (drop (space_len s) s))"
  by pat_completeness auto
termination
  by (relation "measure length") auto

text \<open>Trailing white space: the same on the reversed bytes, each encoding reversed.\<close>

definition space_len_end :: "string \<Rightarrow> nat" where
  "space_len_end s =
     (case filter (\<lambda>w. take (length w) (rev s) = rev w) white_space of
        [] \<Rightarrow> 0
      | w # ws \<Rightarrow> length w)"

function TrimRight :: "string \<Rightarrow> string" where
  "TrimRight s =
     (if space_len_end s = 0 \<or> s = [] then s
      else TrimRight (take (length s - space_len_end s) s))"
  by pat_completeness auto
termination
  by (relation "measure length") auto

definition TrimSpace :: "string \<Rightarrow> string" where
  "TrimSpace s = TrimRight (TrimLeft s)"

section \<open>\<^verbatim>\<open>insertStudent\<close>\<close>

text \<open>
  The body is the result of \<^verbatim>\<open>json.NewDecoder(r.Body).Decode(&s)\<close>: \<open>Inl e\<close> when decoding
  fails with the text \<open>e\<close>, \<open>Inr s\<close> the decoded struct. The handler returns the response
  and the table it leaves. A statement executed outside a transaction that fails leaves
  the table as it was.
\<close>

definition normalize :: "student_in \<Rightarrow> student_in" where
  "normalize s = s\<lparr>Name := TrimSpace (Name s), OrganizationName := TrimSpace (OrganizationName s)\<rparr>"

definition default_org :: "student_in \<Rightarrow> student_in" where
  "default_org s =
     (if OrganizationName s = [] then s\<lparr>OrganizationName := ''No Organization''\<rparr> else s)"

definition insertStudent :: "faults \<Rightarrow> table \<Rightarrow> string + student_in \<Rightarrow> response \<times> table" where
  "insertStudent flt t b =
     (case b of
        Inl e \<Rightarrow> (http_Error (Msg (''Invalid JSON: '' @ e)) 400, t)
      | Inr s0 \<Rightarrow>
          let s = normalize s0 in
          if Age s < 0 \<or> Age s > 120 then (http_Error (Msg ''Invalid age'') 400, t)
          else if GPA s < 0 \<or> GPA s > 4 then (http_Error (Msg ''Invalid GPA'') 400, t)
          else
            let s = default_org s in
            (case query_next_id flt t of
               Inl e \<Rightarrow> (http_Error (Msg ''Database error: Failed to get next ID'') 500, t)
             | Inr newID \<Rightarrow>
                 (case exec_insert flt 0 t
                         (mk_row newID (Name s) (Age s) (GPA s) (OrganizationName s)) of
                    Inl e \<Rightarrow> (http_Error (MsgErr ''Database error: '' e) 500, t)
                  | Inr t' \<Rightarrow>
                      (\<lparr>status = 201,
                        body = CreatedJSON newID ''Student created successfully''\<rparr>, t'))))"

section \<open>\<^verbatim>\<open>bulkInsertStudents\<close>\<close>

text \<open>\<^verbatim>\<open>int64\<close> addition in Go wraps around.\<close>

definition wrap64 :: "int \<Rightarrow> int" where
  "wrap64 x = (x + 2 ^ 63) mod 2 ^ 64 - 2 ^ 63"

text \<open>
  The loop over the decoded rows, inside the transaction: \<open>tx\<close> is the table as the
  transaction sees it, \<open>k\<close> counts the executions of the prepared statement. The first
  failing execution ends the loop with its error.
\<close>

fun bulk_loop :: "faults \<Rightarrow> nat \<Rightarrow> table \<Rightarrow> int \<Rightarrow> student_in list \<Rightarrow> db_error + table" where
  "bulk_loop flt k tx nextID [] = Inr tx"
| "bulk_loop flt k tx nextID (s # ss) =
     (case exec_insert flt k tx (mk_row nextID (Name s) (Age s) (GPA s) (OrganizationName s)) of
        Inl e \<Rightarrow> Inl e
      | Inr tx' \<Rightarrow> bulk_loop flt (Suc k) tx' (wrap64 (nextID + 1)) ss)"

text \<open>The rows that the loop hands to the statement, the first with the id \<open>nextID\<close>.\<close>

fun assign_ids :: "int \<Rightarrow> student_in list \<Rightarrow> student list" where
  "assign_ids nextID [] = []"
| "assign_ids nextID (s # ss) =
     mk_row nextID (Name s) (Age s) (GPA s) (OrganizationName s)
       # assign_ids (wrap64 (nextID + 1)) ss"

text \<open>
  A transaction works on its own view of the table: \<^verbatim>\<open>tx.Rollback()\<close> drops the view,
  \<^verbatim>\<open>tx.Commit()\<close> makes it the table, and a commit that fails leaves the table as it was.
\<close>

definition bulkInsertStudents ::
  "faults \<Rightarrow> table \<Rightarrow> string + student_in list \<Rightarrow> response \<times> table" where
  "bulkInsertStudents flt t b =
     (case b of
        Inl e \<Rightarrow> (jsonError 400 (Msg ''Invalid JSON body for bulk insert''), t)
      | Inr students \<Rightarrow>
          (case query_max_id flt t of
             Inl e \<Rightarrow> (http_Error (Msg ''Failed to get max ID for bulk insert'') 500, t)
           | Inr currentMaxID \<Rightarrow>
               let nextID = wrap64 (currentMaxID + 1) in
               (case flt BeginTx of
                  Some e \<Rightarrow> (http_Error (MsgErr [] e) 500, t)
                | None \<Rightarrow>
                    (case flt Prepare of
                       Some e \<Rightarrow> (http_Error (MsgErr [] e) 500, t)
                     | None \<Rightarrow>
                         (case bulk_loop flt 0 t nextID students of
                            Inl e \<Rightarrow>
                              (http_Error
                                 (MsgErr ''Transaction failed due to database error: '' e) 500, t)
                          | Inr tx \<Rightarrow>
                              (case flt Commit of
                                 Some e \<Rightarrow> (http_Error (Msg ''Transaction commit failed'') 500, t)
                               | None \<Rightarrow>
                                   (\<lparr>status = 201,
                                     body = BulkJSON ''Bulk insert successful''
                                              (length students)\<rparr>, tx)))))))"

section \<open>\<^verbatim>\<open>updateStudent\<close>\<close>

text \<open>
  \<^verbatim>\<open>strconv.Atoi\<close>, as the Go library defines it (\<^verbatim>\<open>ParseInt(s, 10, 0)\<close> over
  \<^verbatim>\<open>ParseUint\<close>; the fast path for short strings computes the same): the value and the
  error. A syntax error returns 0, a range error the nearest 64-bit bound.
\<close>

datatype num_error = ErrSyntax | ErrRange

definition UINT64_MAX :: int where "UINT64_MAX = 2 ^ 64 - 1"

definition digit_of :: "char \<Rightarrow> int option" where
  "digit_of c =
     (let n = (of_char c :: int) in if 48 \<le> n \<and> n \<le> 57 then Some (n - 48) else None)"

fun ParseUint_loop :: "int \<Rightarrow> string \<Rightarrow> int \<times> num_error option" where
  "ParseUint_loop n [] = (n, None)"
| "ParseUint_loop n (c # cs) =
     (case digit_of c of
        None \<Rightarrow> (0, Some ErrSyntax)
      | Some d \<Rightarrow>
          if UINT64_MAX div 10 + 1 \<le> n then (UINT64_MAX, Some ErrRange)
          else if UINT64_MAX < n * 10 + d then (UINT64_MAX, Some ErrRange)
          else ParseUint_loop (n * 10 + d) cs)"

definition ParseUint :: "string \<Rightarrow> int \<times> num_error option" where
  "ParseUint s = (if s = [] then (0, Some ErrSyntax) else ParseUint_loop 0 s)"

definition Atoi :: "string \<Rightarrow> int \<times> num_error option" where
  "Atoi s =
     (case s of
        [] \<Rightarrow> (0, Some ErrSyntax)
      | c # cs \<Rightarrow>
          let neg = (c = CHR ''-'');
              r = ParseUint (if c = CHR ''+'' \<or> c = CHR ''-'' then cs else s);
              un = fst r
          in if snd r = Some ErrSyntax then (0, Some ErrSyntax)
             else if \<not> neg \<and> 2 ^ 63 \<le> un then (INT64_MAX, Some ErrRange)
             else if neg \<and> 2 ^ 63 < un then (INT64_MIN, Some ErrRange)
             else (if neg then - un else un, None))"

text \<open>
  \<^verbatim>\<open>%.2f\<close>: the decimal with two fraction digits nearest to the value, a tie going to
  the even last digit (\<^verbatim>\<open>strconv\<close> rounds the exact binary value). \<open>fmt_2f g\<close> is the
  number that the printed text denotes.
\<close>

definition round_half_even :: "rat \<Rightarrow> int" where
  "round_half_even x =
     (let n = \<lfloor>x\<rfloor>; r = x - of_int n
      in if r < 1 / 2 then n else if 1 / 2 < r then n + 1 else if even n then n else n + 1)"

definition fmt_2f :: "rat \<Rightarrow> rat" where
  "fmt_2f g = of_int (round_half_even (g * 100)) / 100"

text \<open>\<^verbatim>\<open>strings.ReplaceAll(s, "'", "''")\<close>.\<close>

definition ReplaceAll_quote :: "string \<Rightarrow> string" where
  "ReplaceAll_quote s = concat (map (\<lambda>c. if c = CHR 0x27 then [c, c] else [c]) s)"

text \<open>
  How the engine reads a string literal of the statement text: from the byte after the
  opening quote up to the first quote that is not doubled, a doubled quote standing for
  one. The result is the value and the text after the closing quote; \<open>None\<close> when the
  literal never ends.
\<close>

fun read_literal :: "string \<Rightarrow> (string \<times> string) option" where
  "read_literal [] = None"
| "read_literal [c] = (if c = CHR 0x27 then Some ([], []) else None)"
| "read_literal (c # d # cs) =
     (if c = CHR 0x27 then
        (if d = CHR 0x27 then map_option (apfst ((#) c)) (read_literal cs)
         else Some ([], d # cs))
      else map_option (apfst ((#) c)) (read_literal (d # cs)))"

text \<open>
  The statement \<^verbatim>\<open>UPDATE students SET name = '%s', age = %d, gpa = %.2f,
  organization_name = '%s' WHERE id = %d\<close> (with the line breaks and indentation of the
  source) arrives as text. \<open>sql_string txt rest\<close> is the value of the literal that the
  engine reads where the format string has \<^verbatim>\<open>'%s'\<close> followed by \<open>rest\<close> and \<open>txt\<close> was
  printed for \<^verbatim>\<open>%s\<close>; it is \<open>None\<close> when the literal does not end where the format
  string closes it, so that the text is not the intended statement. \<open>after_name\<close> and
  \<open>after_org\<close> are the pieces of the format string that follow the two literals, up to
  the next verb. \<^verbatim>\<open>%d\<close> prints an integer that reads back as itself.
\<close>

definition after_name :: string where
  "after_name = '', '' @ [CHR 0x0A] @ ''            age = ''"

definition after_org :: string where
  "after_org = '' '' @ [CHR 0x0A] @ ''        WHERE '' @ [CHR 0x0A] @ ''            id = ''"

definition sql_string :: "string \<Rightarrow> string \<Rightarrow> string option" where
  "sql_string txt rest =
     (case read_literal (txt @ CHR 0x27 # rest) of
        None \<Rightarrow> None
      | Some (v, r) \<Rightarrow> if r = rest then Some v else None)"

definition exec_update ::
  "faults \<Rightarrow> nat \<Rightarrow> table \<Rightarrow> string \<Rightarrow> int \<Rightarrow> rat \<Rightarrow> string \<Rightarrow> int \<Rightarrow> db_error + table" where
  "exec_update flt k t safeName a g safeOrg i =
     (case flt (Exec k) of
        Some e \<Rightarrow> Inl e
      | None \<Rightarrow>
          (case (sql_string safeName after_name, sql_string safeOrg after_org) of
             (Some n, Some org) \<Rightarrow>
               if a < INT32_MIN \<or> INT32_MAX < a then Inl IntegerOutOfRange
               else
                 Inr (map (\<lambda>s. if ID s = i
                              then s\<lparr>Name := n, Age := a, GPA := g, OrganizationName := org\<rparr>
                              else s) t)
           | _ \<Rightarrow> Inl SyntaxError))"

text \<open>\<^verbatim>\<open>SELECT COUNT(*) FROM students WHERE id=?\<close>.\<close>

definition query_exists :: "faults \<Rightarrow> table \<Rightarrow> int \<Rightarrow> db_error + nat" where
  "query_exists flt t i =
     (case flt QueryRow of
        Some e \<Rightarrow> Inl e
      | None \<Rightarrow> Inr (length (filter (\<lambda>s. ID s = i) t)))"

text \<open>
  \<open>idStr\<close> is the \<^verbatim>\<open>{id}\<close> of the route, \<open>b\<close> the decoded body. The transaction is the
  one of the bulk insert: the update works on a view that only a commit makes the table.
\<close>

definition updateStudent ::
  "faults \<Rightarrow> table \<Rightarrow> string \<Rightarrow> string + student_in \<Rightarrow> response \<times> table" where
  "updateStudent flt t idStr b =
     (case Atoi idStr of
        (i, Some err) \<Rightarrow> (jsonError 400 (Msg ''Invalid student ID''), t)
      | (i, None) \<Rightarrow>
          (case b of
             Inl e \<Rightarrow> (jsonError 400 (Msg ''Invalid JSON body''), t)
           | Inr s0 \<Rightarrow>
               let s = normalize s0 in
               if Age s < 0 \<or> Age s > 120 then (jsonError 400 (Msg ''Age out of range''), t)
               else if GPA s < 0 \<or> GPA s > 4 then (jsonError 400 (Msg ''GPA out of range''), t)
               else
                 let s = default_org s in
                 (case query_exists flt t i of
                    Inl e \<Rightarrow> (jsonError 500 (MsgErr [] e), t)
                  | Inr exists \<Rightarrow>
                      if exists = 0 then (jsonError 404 (Msg ''Student not found''), t)
                      else
                        (case flt BeginTx of
                           Some e \<Rightarrow>
                             (jsonError 500
                                (Msg ''Database error: Could not start transaction''), t)
                         | None \<Rightarrow>
                             let safeName = ReplaceAll_quote (Name s);
                                 safeOrg = ReplaceAll_quote (OrganizationName s)
                             in
                             (case exec_update flt 0 t safeName (Age s) (fmt_2f (GPA s))
                                     safeOrg i of
                                Inl e \<Rightarrow> (jsonError 500 (MsgErr ''Update failed: '' e), t)
                              | Inr tx \<Rightarrow>
                                  (case flt Commit of
                                     Some e \<Rightarrow>
                                       (jsonError 500
                                          (Msg ''Database error: Could not commit transaction''),
                                        t)
                                   | None \<Rightarrow>
                                       (\<lparr>status = 200,
                                         body = MessageJSON ''Student updated successfully''\<rparr>,
                                        tx)))))))"

section \<open>\<^verbatim>\<open>deleteStudent\<close>\<close>

text \<open>
  \<^verbatim>\<open>DELETE FROM students WHERE id=?\<close> binds the text of the route's \<^verbatim>\<open>{id}\<close>. How the
  engine reads a text as a \<^verbatim>\<open>BIGINT\<close> is the parameter \<open>cast\<close>; a text it cannot read
  fails the statement. Nothing is written to the response on success.
\<close>

definition deleteStudent ::
  "(string \<Rightarrow> int option) \<Rightarrow> faults \<Rightarrow> table \<Rightarrow> string \<Rightarrow> response \<times> table" where
  "deleteStudent cast flt t idv =
     (case flt (Exec 0) of
        Some e \<Rightarrow> (http_Error (MsgErr [] e) 500, t)
      | None \<Rightarrow>
          (case cast idv of
             None \<Rightarrow> (http_Error (MsgErr [] ConversionError) 500, t)
           | Some i \<Rightarrow> (\<lparr>status = 200, body = NoBody\<rparr>, filter (\<lambda>s. ID s \<noteq> i) t)))"

section \<open>\<^verbatim>\<open>filterStudents\<close> and \<^verbatim>\<open>searchStudentsByName\<close>\<close>

text \<open>\<^verbatim>\<open>strings.Split(s, ",")\<close>.\<close>

fun Split_comma :: "string \<Rightarrow> string list" where
  "Split_comma [] = [[]]"
| "Split_comma (c # cs) =
     (if c = CHR '','' then [] # Split_comma cs
      else (case Split_comma cs of [] \<Rightarrow> [[c]] | w # ws \<Rightarrow> (c # w) # ws))"

text \<open>\<^verbatim>\<open>strings.Join(ws, ",")\<close>.\<close>

fun Join_comma :: "string list \<Rightarrow> string" where
  "Join_comma [] = []"
| "Join_comma [w] = w"
| "Join_comma (w # v # ws) = w @ CHR '','' # Join_comma (v # ws)"

text \<open>
  The handler appends one conjunct to \<^verbatim>\<open>WHERE 1=1\<close> for each criterion it applies, and
  the arguments bound to it. \<^verbatim>\<open>BETWEEN\<close> includes both bounds; \<^verbatim>\<open>IN\<close> compares for
  equality.
\<close>

datatype cond = AgeBetween int int | GpaBetween rat rat | OrgIn "string list"

fun holds :: "cond \<Rightarrow> student \<Rightarrow> bool" where
  "holds (AgeBetween lo hi) s = (lo \<le> Age s \<and> Age s \<le> hi)"
| "holds (GpaBetween lo hi) s = (lo \<le> GPA s \<and> GPA s \<le> hi)"
| "holds (OrgIn orgs) s = (OrganizationName s \<in> set orgs)"

definition select_where :: "cond list \<Rightarrow> table \<Rightarrow> student list" where
  "select_where cs t = filter (\<lambda>s. list_all (\<lambda>c. holds c s) cs) t"

definition filter_conds ::
  "(string \<Rightarrow> rat \<times> num_error option) \<Rightarrow> string \<Rightarrow> string \<Rightarrow> string \<Rightarrow> string \<Rightarrow> string
     \<Rightarrow> cond list" where
  "filter_conds ParseFloat ageMinStr ageMaxStr gpaMinStr gpaMaxStr orgsStr =
     (let ageMin = fst (Atoi ageMinStr);
          ageMax = fst (Atoi ageMaxStr);
          gpaMin = fst (ParseFloat gpaMinStr);
          gpaMax = fst (ParseFloat gpaMaxStr)
      in (if ageMinStr \<noteq> [] \<and> ageMaxStr \<noteq> [] then [AgeBetween ageMin ageMax] else [])
         @ (if gpaMinStr \<noteq> [] \<and> gpaMaxStr \<noteq> [] then [GpaBetween gpaMin gpaMax] else [])
         @ (if orgsStr \<noteq> [] then [OrgIn (Split_comma orgsStr)] else []))"

text \<open>
  The five strings are what \<^verbatim>\<open>r.URL.Query().Get\<close> returns, empty for a parameter that
  is absent. \<^verbatim>\<open>strconv.ParseFloat\<close> is the parameter \<open>ParseFloat\<close> (its finite results);
  like \<open>Atoi\<close> it returns a value and an error, and the handler drops both errors.
  \<^verbatim>\<open>rows.Scan\<close> runs only when there is a row.
\<close>

definition filterStudents ::
  "(string \<Rightarrow> rat \<times> num_error option) \<Rightarrow> faults \<Rightarrow> table
     \<Rightarrow> string \<Rightarrow> string \<Rightarrow> string \<Rightarrow> string \<Rightarrow> string \<Rightarrow> response \<times> table" where
  "filterStudents ParseFloat flt t ageMinStr ageMaxStr gpaMinStr gpaMaxStr orgsStr =
     (case flt Query of
        Some e \<Rightarrow> (http_Error (MsgErr [] e) 500, t)
      | None \<Rightarrow>
          let rows = select_where
                (filter_conds ParseFloat ageMinStr ageMaxStr gpaMinStr gpaMaxStr orgsStr) t
          in (case (if rows = [] then None else flt Scan) of
                Some e \<Rightarrow> (http_Error (MsgErr [] e) 500, t)
              | None \<Rightarrow> (\<lparr>status = 200, body = StudentsJSON rows\<rparr>, t)))"




section \<open>The router\<close>

text \<open>
  The four routes of \<^verbatim>\<open>main\<close> whose handlers write to the table, and a server that
  handles requests one after the other, each with the faults of its own engine calls.
\<close>

datatype request =
  POST_students "string + student_in"
  | POST_students_bulk "string + student_in list"
  | PUT_students string "string + student_in"
  | DELETE_students string

fun route :: "(string \<Rightarrow> int option) \<Rightarrow> faults \<Rightarrow> table \<Rightarrow> request \<Rightarrow> response \<times> table" where
  "route cast flt t (POST_students b) = insertStudent flt t b"
| "route cast flt t (POST_students_bulk b) = bulkInsertStudents flt t b"
| "route cast flt t (PUT_students idStr b) = updateStudent flt t idStr b"
| "route cast flt t (DELETE_students idv) = deleteStudent cast flt t idv"

fun serve :: "(string \<Rightarrow> int option) \<Rightarrow> table \<Rightarrow> (faults \<times> request) list \<Rightarrow> table" where
  "serve cast t [] = t"
| "serve cast t ((flt, rq) # rest) = serve cast (snd (route cast flt t rq)) rest"

section \<open>The engine's operations\<close>

lemma sql_max_eq: "sql_max xs = (if xs = [] then None else Some (Max (set xs)))"
  by (induction xs) auto

lemma coalesce_max_id_eq:
  "coalesce_max_id t = (if t = [] then 0 else Max (set (map ID t)))"
  by (simp add: coalesce_max_id_def sql_max_eq)

lemma ID_le_coalesce: "r \<in> set t \<Longrightarrow> ID r \<le> coalesce_max_id t"
  by (auto simp: coalesce_max_id_eq)

lemma insert_row_Inr:
  "insert_row t r = Inr t' \<Longrightarrow> t' = t @ [r] \<and> ID r \<notin> set (map ID t)"
  by (auto simp: insert_row_def split: if_splits)

lemma exec_insert_Inr:
  "exec_insert flt k t r = Inr t' \<Longrightarrow> t' = t @ [r] \<and> ID r \<notin> set (map ID t)"
  by (auto simp: exec_insert_def dest: insert_row_Inr split: option.splits)

lemma fresh_next: "coalesce_max_id t + 1 \<notin> set (map ID t)"
proof
  assume "coalesce_max_id t + 1 \<in> set (map ID t)"
  then obtain r where "r \<in> set t" "ID r = coalesce_max_id t + 1" by auto
  with ID_le_coalesce [of r t] show False by simp
qed

lemma mk_row_sel:
  "ID (mk_row i n a g org) = i" "Name (mk_row i n a g org) = n" "Age (mk_row i n a g org) = a"
  "GPA (mk_row i n a g org) = g" "OrganizationName (mk_row i n a g org) = org"
  by (simp_all add: mk_row_def)

section \<open>Single insert\<close>

text \<open>
  Claim C1. Whenever \<^verbatim>\<open>insertStudent\<close> answers 201 to a decoded body, the fields were
  valid, the id in the response is 1 on the empty table and one more than the largest id
  otherwise, and the table has grown by exactly the row with that id, carrying the
  trimmed name, the age, the GPA and the organization (defaulted when empty). And it
  does answer 201 to every valid body when the two engine calls do not fail and the new
  id is a \<^verbatim>\<open>BIGINT\<close>.
\<close>

theorem insertStudent_assigns_next_id:
  fixes flt t s
  defines "R \<equiv> insertStudent flt t (Inr s)"
  defines "next \<equiv> (if t = [] then 1 else 1 + Max (set (map ID t)))"
  defines "row \<equiv> mk_row next (TrimSpace (Name s)) (Age s) (GPA s)
      (if TrimSpace (OrganizationName s) = [] then ''No Organization''
       else TrimSpace (OrganizationName s))"
  shows "(status (fst R) = 201 \<longrightarrow>
            0 \<le> Age s \<and> Age s \<le> 120 \<and> 0 \<le> GPA s \<and> GPA s \<le> 4 \<and>
            body (fst R) = CreatedJSON next ''Student created successfully'' \<and>
            snd R = t @ [row])
       \<and> (0 \<le> Age s \<and> Age s \<le> 120 \<and> 0 \<le> GPA s \<and> GPA s \<le> 4 \<and>
            flt QueryRow = None \<and> flt (Exec 0) = None \<and> next \<le> INT64_MAX
            \<longrightarrow> status (fst R) = 201)"
proof -
  have nx: "next = coalesce_max_id t + 1"
    by (simp add: next_def coalesce_max_id_eq)
  have fresh: "next \<notin> set (map ID t)"
    unfolding nx by (rule fresh_next)
  show ?thesis
    unfolding R_def row_def insertStudent_def
    using fresh
    by (auto simp: Let_def normalize_def default_org_def query_next_id_def exec_insert_def
          insert_row_def http_Error_def nx mk_row_def INT32_MIN_def INT32_MAX_def
          split: option.splits sum.splits if_splits)
qed

lemma TrimSpace_Ann: "TrimSpace ''  Ann '' = ''Ann''"
  by code_simp

lemma TrimSpace_blank: "TrimSpace ''  '' = []"
  by code_simp

theorem insertStudent_assigns_next_id_witness:
  "status (fst (insertStudent no_faults
      [mk_row 1 ''Bo'' 19 3 ''Chess'', mk_row 5 ''Cy'' 22 2 ''Band'', mk_row 3 ''Di'' 20 4 ''Band'']
      (Inr \<lparr>Name = ''  Ann '', Age = 120, GPA = 7 / 2, OrganizationName = ''  ''\<rparr>))) = 201
   \<and> body (fst (insertStudent no_faults
      [mk_row 1 ''Bo'' 19 3 ''Chess'', mk_row 5 ''Cy'' 22 2 ''Band'', mk_row 3 ''Di'' 20 4 ''Band'']
      (Inr \<lparr>Name = ''  Ann '', Age = 120, GPA = 7 / 2, OrganizationName = ''  ''\<rparr>)))
       = CreatedJSON 6 ''Student created successfully''
   \<and> snd (insertStudent no_faults
      [mk_row 1 ''Bo'' 19 3 ''Chess'', mk_row 5 ''Cy'' 22 2 ''Band'', mk_row 3 ''Di'' 20 4 ''Band'']
      (Inr \<lparr>Name = ''  Ann '', Age = 120, GPA = 7 / 2, OrganizationName = ''  ''\<rparr>))
       = [mk_row 1 ''Bo'' 19 3 ''Chess'', mk_row 5 ''Cy'' 22 2 ''Band'', mk_row 3 ''Di'' 20 4 ''Band'',
          mk_row 6 ''Ann'' 120 (7 / 2) ''No Organization'']"
  using insertStudent_assigns_next_id [of no_faults
      "[mk_row 1 ''Bo'' 19 3 ''Chess'', mk_row 5 ''Cy'' 22 2 ''Band'', mk_row 3 ''Di'' 20 4 ''Band'']"
      "\<lparr>Name = ''  Ann '', Age = 120, GPA = 7 / 2, OrganizationName = ''  ''\<rparr>"]
  by (simp add: no_faults_def INT64_MAX_def TrimSpace_Ann TrimSpace_blank mk_row_def)

text \<open>
  Claim C8. \<^verbatim>\<open>insertStudent\<close> answers 400 to a decoded body exactly when the age is below
  0 or above 120 or the GPA is below 0 or above 4, and then the table is unchanged. The
  bounds themselves are accepted.
\<close>

theorem insertStudent_rejects_exactly_invalid:
  "((status (fst (insertStudent flt t (Inr s))) = 400)
      = (Age s < 0 \<or> 120 < Age s \<or> GPA s < 0 \<or> 4 < GPA s))
   \<and> (Age s < 0 \<or> 120 < Age s \<or> GPA s < 0 \<or> 4 < GPA s
        \<longrightarrow> snd (insertStudent flt t (Inr s)) = t)"
  by (auto simp: insertStudent_def Let_def normalize_def default_org_def http_Error_def
        split: option.splits sum.splits)

text \<open>The boundary cases of the claim: -1, 121 and 4.01 are rejected; 0, 120, 0.0 and 4.0 are not.\<close>

theorem insertStudent_rejects_exactly_invalid_witness:
  "status (fst (insertStudent no_faults [] (Inr \<lparr>Name = ''Al'', Age = - 1, GPA = 3, OrganizationName = ''X''\<rparr>))) = 400
   \<and> snd (insertStudent no_faults [] (Inr \<lparr>Name = ''Al'', Age = - 1, GPA = 3, OrganizationName = ''X''\<rparr>)) = []
   \<and> status (fst (insertStudent no_faults [] (Inr \<lparr>Name = ''Al'', Age = 121, GPA = 3, OrganizationName = ''X''\<rparr>))) = 400
   \<and> status (fst (insertStudent no_faults [] (Inr \<lparr>Name = ''Al'', Age = 20, GPA = 401 / 100, OrganizationName = ''X''\<rparr>))) = 400
   \<and> status (fst (insertStudent no_faults [] (Inr \<lparr>Name = ''Al'', Age = 0, GPA = 0, OrganizationName = ''X''\<rparr>))) \<noteq> 400
   \<and> status (fst (insertStudent no_faults [] (Inr \<lparr>Name = ''Al'', Age = 120, GPA = 4, OrganizationName = ''X''\<rparr>))) \<noteq> 400"
  using
    insertStudent_rejects_exactly_invalid [of no_faults "[]"
      "\<lparr>Name = ''Al'', Age = - 1, GPA = 3, OrganizationName = ''X''\<rparr>"]
    insertStudent_rejects_exactly_invalid [of no_faults "[]"
      "\<lparr>Name = ''Al'', Age = 121, GPA = 3, OrganizationName = ''X''\<rparr>"]
    insertStudent_rejects_exactly_invalid [of no_faults "[]"
      "\<lparr>Name = ''Al'', Age = 20, GPA = 401 / 100, OrganizationName = ''X''\<rparr>"]
    insertStudent_rejects_exactly_invalid [of no_faults "[]"
      "\<lparr>Name = ''Al'', Age = 0, GPA = 0, OrganizationName = ''X''\<rparr>"]
    insertStudent_rejects_exactly_invalid [of no_faults "[]"
      "\<lparr>Name = ''Al'', Age = 120, GPA = 4, OrganizationName = ''X''\<rparr>"]
  by simp

section \<open>Bulk insert\<close>

lemma wrap64_id: "INT64_MIN \<le> x \<Longrightarrow> x \<le> INT64_MAX \<Longrightarrow> wrap64 x = x"
  by (simp add: wrap64_def INT64_MIN_def INT64_MAX_def)

lemma bulk_loop_Inr:
  "bulk_loop flt k tx i ss = Inr tx' \<Longrightarrow> tx' = tx @ assign_ids i ss"
proof (induction ss arbitrary: k tx i)
  case Nil
  then show ?case by simp
next
  case (Cons s ss)
  from Cons.prems obtain tx1 where
    e: "exec_insert flt k tx (mk_row i (Name s) (Age s) (GPA s) (OrganizationName s)) = Inr tx1"
    and l: "bulk_loop flt (Suc k) tx1 (wrap64 (i + 1)) ss = Inr tx'"
    by (auto split: sum.splits)
  from exec_insert_Inr [OF e]
  have "tx1 = tx @ [mk_row i (Name s) (Age s) (GPA s) (OrganizationName s)]" by simp
  with Cons.IH [OF l] show ?case by simp
qed

lemma assign_ids_upto:
  "INT64_MIN \<le> i \<Longrightarrow> i + int (length ss) - 1 \<le> INT64_MAX \<Longrightarrow>
   assign_ids i ss =
     map (\<lambda>(j, s). mk_row j (Name s) (Age s) (GPA s) (OrganizationName s))
       (zip [i .. i + int (length ss) - 1] ss)"
proof (induction ss arbitrary: i)
  case Nil
  then show ?case by simp
next
  case (Cons s ss)
  show ?case
  proof (cases ss)
    case Nil
    then show ?thesis by simp
  next
    case (Cons s' ss')
  have w: "wrap64 (i + 1) = i + 1"
    using Cons.prems Cons by (intro wrap64_id) auto
  have u: "[i .. i + int (length (s # ss)) - 1] = i # [i + 1 .. i + 1 + int (length ss) - 1]"
    by (subst upto_rec1) (auto simp: algebra_simps)
  have "assign_ids (i + 1) ss =
     map (\<lambda>(j, s). mk_row j (Name s) (Age s) (GPA s) (OrganizationName s))
       (zip [i + 1 .. i + 1 + int (length ss) - 1] ss)"
    using Cons.prems by (intro Cons.IH) auto
  then show ?thesis
    by (simp only: assign_ids.simps w u zip_Cons_Cons list.map prod.case)
  qed
qed

lemma bulkInsertStudents_201:
  assumes "status (fst (bulkInsertStudents flt t (Inr students))) = 201"
  shows "bulkInsertStudents flt t (Inr students) =
           (\<lparr>status = 201, body = BulkJSON ''Bulk insert successful'' (length students)\<rparr>,
            t @ assign_ids (wrap64 (coalesce_max_id t + 1)) students)"
proof -
  from assms obtain tx where
    l: "bulk_loop flt 0 t (wrap64 (coalesce_max_id t + 1)) students = Inr tx"
    and r: "bulkInsertStudents flt t (Inr students) =
           (\<lparr>status = 201, body = BulkJSON ''Bulk insert successful'' (length students)\<rparr>, tx)"
    by (auto simp: bulkInsertStudents_def query_max_id_def Let_def http_Error_def
          split: option.splits sum.splits)
  from bulk_loop_Inr [OF l] r show ?thesis by simp
qed

lemma bulk_loop_fails:
  assumes "k < length ss"
    and "\<forall>j<k. \<not> isl (exec_insert flt (k0 + j) (tx @ take j (assign_ids i ss))
                        (assign_ids i ss ! j))"
    and "exec_insert flt (k0 + k) (tx @ take k (assign_ids i ss)) (assign_ids i ss ! k) = Inl e"
  shows "bulk_loop flt k0 tx i ss = Inl e"
  using assms
proof (induction ss arbitrary: k0 tx i k)
  case Nil
  then show ?case by simp
next
  case (Cons s ss)
  let ?r = "mk_row i (Name s) (Age s) (GPA s) (OrganizationName s)"
  show ?case
  proof (cases k)
    case 0
    with Cons.prems show ?thesis by simp
  next
    case (Suc k')
    from Cons.prems(2) Suc have "\<not> isl (exec_insert flt k0 tx ?r)"
      by (auto dest: spec [of _ 0])
    then obtain tx1 where e: "exec_insert flt k0 tx ?r = Inr tx1"
      by (cases "exec_insert flt k0 tx ?r") auto
    from exec_insert_Inr [OF e] have tx1: "tx1 = tx @ [?r]" by simp
    have "bulk_loop flt (Suc k0) tx1 (wrap64 (i + 1)) ss = Inl e"
    proof (rule Cons.IH [of k'])
      show "k' < length ss" using Cons.prems(1) Suc by simp
      show "\<forall>j<k'. \<not> isl (exec_insert flt (Suc k0 + j)
               (tx1 @ take j (assign_ids (wrap64 (i + 1)) ss))
               (assign_ids (wrap64 (i + 1)) ss ! j))"
      proof (intro allI impI)
        fix j assume "j < k'"
        with Cons.prems(2) Suc
        have "\<not> isl (exec_insert flt (k0 + Suc j) (tx @ take (Suc j) (assign_ids i (s # ss)))
                 (assign_ids i (s # ss) ! Suc j))"
          by auto
        then show "\<not> isl (exec_insert flt (Suc k0 + j)
               (tx1 @ take j (assign_ids (wrap64 (i + 1)) ss))
               (assign_ids (wrap64 (i + 1)) ss ! j))"
          by (simp add: tx1)
      qed
      show "exec_insert flt (Suc k0 + k') (tx1 @ take k' (assign_ids (wrap64 (i + 1)) ss))
              (assign_ids (wrap64 (i + 1)) ss ! k') = Inl e"
        using Cons.prems(3) Suc by (simp add: tx1)
    qed
    with e show ?thesis by simp
  qed
qed

lemma bulk_loop_succeeds:
  assumes "\<forall>j<length ss. \<not> isl (exec_insert flt (k0 + j) (tx @ take j (assign_ids i ss))
                        (assign_ids i ss ! j))"
  shows "bulk_loop flt k0 tx i ss = Inr (tx @ assign_ids i ss)"
  using assms
proof (induction ss arbitrary: k0 tx i)
  case Nil
  then show ?case by simp
next
  case (Cons s ss)
  let ?r = "mk_row i (Name s) (Age s) (GPA s) (OrganizationName s)"
  from Cons.prems have "\<not> isl (exec_insert flt k0 tx ?r)"
    by (auto dest: spec [of _ 0])
  then obtain tx1 where e: "exec_insert flt k0 tx ?r = Inr tx1"
    by (cases "exec_insert flt k0 tx ?r") auto
  from exec_insert_Inr [OF e] have tx1: "tx1 = tx @ [?r]" by simp
  have "bulk_loop flt (Suc k0) tx1 (wrap64 (i + 1)) ss
          = Inr (tx1 @ assign_ids (wrap64 (i + 1)) ss)"
  proof (rule Cons.IH, intro allI impI)
    fix j assume "j < length ss"
    with Cons.prems
    have "\<not> isl (exec_insert flt (k0 + Suc j) (tx @ take (Suc j) (assign_ids i (s # ss)))
             (assign_ids i (s # ss) ! Suc j))"
      by auto
    then show "\<not> isl (exec_insert flt (Suc k0 + j)
           (tx1 @ take j (assign_ids (wrap64 (i + 1)) ss))
           (assign_ids (wrap64 (i + 1)) ss ! j))"
      by (simp add: tx1)
  qed
  with e show ?case by (simp add: tx1)
qed

text \<open>
  Claim C2. The largest id is read before the transaction begins: when that read fails,
  the answer is \<^verbatim>\<open>Failed to get max ID for bulk insert\<close> whatever \<^verbatim>\<open>BeginTx\<close> and
  \<^verbatim>\<open>Prepare\<close> would have done, and the error of \<^verbatim>\<open>BeginTx\<close> or of \<^verbatim>\<open>Prepare\<close> is the
  answer only when the read has succeeded. It is read once: the rows handed to the
  statement carry the value read plus one and its successive \<^verbatim>\<open>int64\<close> increments
  (\<open>assign_ids\<close>), in input order, with no further look at the table; when no call fails
  and the engine accepts these rows, the answer is 201; and when the answer is 201, the
  table has grown by exactly these rows. With \<open>m\<close> the largest id present before (0 on
  the empty table) and \<open>m\<close>, \<open>m + n\<close> within 64 bits, the ids of the \<open>n\<close> new rows are
  \<open>m + 1, \<dots>, m + n\<close>.
\<close>

theorem bulkInsertStudents_consecutive_ids:
  fixes flt t students e
  defines "R \<equiv> bulkInsertStudents flt t (Inr students)"
  defines "m \<equiv> (if t = [] then 0 else Max (set (map ID t)))"
  defines "rows \<equiv> assign_ids (wrap64 (m + 1)) students"
  shows "(flt QueryRow = Some e \<longrightarrow>
            R = (http_Error (Msg ''Failed to get max ID for bulk insert'') 500, t))
       \<and> (flt QueryRow = None \<and> flt BeginTx = Some e \<longrightarrow>
            R = (http_Error (MsgErr [] e) 500, t))
       \<and> (flt QueryRow = None \<and> flt BeginTx = None \<and> flt Prepare = Some e \<longrightarrow>
            R = (http_Error (MsgErr [] e) 500, t))
       \<and> (flt QueryRow = None \<and> flt BeginTx = None \<and> flt Prepare = None
            \<and> flt Commit = None
            \<and> (\<forall>j<length students. \<not> isl (exec_insert flt j (t @ take j rows) (rows ! j)))
          \<longrightarrow> status (fst R) = 201)
       \<and> (status (fst R) = 201 \<longrightarrow>
            flt QueryRow = None \<and> flt BeginTx = None \<and> snd R = t @ rows
            \<and> (INT64_MIN \<le> m \<and> m + int (length students) \<le> INT64_MAX \<longrightarrow>
                 snd R = t @ map (\<lambda>(i, s). mk_row i (Name s) (Age s) (GPA s)
                                           (OrganizationName s))
                               (zip [m + 1 .. m + int (length students)] students)
                 \<and> map ID (snd R) = map ID t @ [m + 1 .. m + int (length students)]))"
proof -
  have m: "m = coalesce_max_id t"
    by (simp add: m_def coalesce_max_id_eq)
  have read_first: "R = (http_Error (Msg ''Failed to get max ID for bulk insert'') 500, t)"
    if "flt QueryRow = Some e"
    using that by (simp add: R_def bulkInsertStudents_def query_max_id_def)
  have then_begin: "R = (http_Error (MsgErr [] e) 500, t)"
    if "flt QueryRow = None \<and> flt BeginTx = Some e"
    using that by (simp add: R_def bulkInsertStudents_def query_max_id_def)
  have then_prepare: "R = (http_Error (MsgErr [] e) 500, t)"
    if "flt QueryRow = None \<and> flt BeginTx = None \<and> flt Prepare = Some e"
    using that by (simp add: R_def bulkInsertStudents_def query_max_id_def)
  have succeeds: "status (fst R) = 201"
    if "flt QueryRow = None \<and> flt BeginTx = None \<and> flt Prepare = None \<and> flt Commit = None
        \<and> (\<forall>j<length students. \<not> isl (exec_insert flt j (t @ take j rows) (rows ! j)))"
  proof -
    have "bulk_loop flt 0 t (wrap64 (m + 1)) students = Inr (t @ rows)"
      using that unfolding rows_def
      by (intro bulk_loop_succeeds) simp_all
    with that show ?thesis
      by (simp add: R_def bulkInsertStudents_def query_max_id_def m)
  qed
  have created: "flt QueryRow = None \<and> flt BeginTx = None \<and> snd R = t @ rows
            \<and> (INT64_MIN \<le> m \<and> m + int (length students) \<le> INT64_MAX \<longrightarrow>
                 snd R = t @ map (\<lambda>(i, s). mk_row i (Name s) (Age s) (GPA s)
                                           (OrganizationName s))
                               (zip [m + 1 .. m + int (length students)] students)
                 \<and> map ID (snd R) = map ID t @ [m + 1 .. m + int (length students)])"
    if st: "status (fst R) = 201"
  proof -
    have q: "flt QueryRow = None \<and> flt BeginTx = None"
      using st
      by (auto simp: R_def bulkInsertStudents_def query_max_id_def http_Error_def
            split: option.splits)
    have r: "snd R = t @ rows"
      using bulkInsertStudents_201 [of flt t students] st
      by (simp add: R_def rows_def m)
    have exact: "snd R = t @ map (\<lambda>(i, s). mk_row i (Name s) (Age s) (GPA s)
                                           (OrganizationName s))
                               (zip [m + 1 .. m + int (length students)] students)
                 \<and> map ID (snd R) = map ID t @ [m + 1 .. m + int (length students)]"
      if lo: "INT64_MIN \<le> m" and hi: "m + int (length students) \<le> INT64_MAX"
    proof (cases students)
      case Nil
      with r show ?thesis by (simp add: rows_def)
    next
      case (Cons s ss)
      with hi have "m + 1 \<le> INT64_MAX" by simp
      with lo have w: "wrap64 (m + 1) = m + 1"
        by (intro wrap64_id) auto
      have a: "assign_ids (m + 1) students =
          map (\<lambda>(i, s). mk_row i (Name s) (Age s) (GPA s) (OrganizationName s))
            (zip [m + 1 .. m + int (length students)] students)"
        using assign_ids_upto [of "m + 1" students] lo hi by (simp add: algebra_simps)
      have len: "length [m + 1 .. m + int (length students)] = length students"
        by simp
      have "map ID (map (\<lambda>(i, s). mk_row i (Name s) (Age s) (GPA s) (OrganizationName s))
            (zip [m + 1 .. m + int (length students)] students))
          = map fst (zip [m + 1 .. m + int (length students)] students)"
        by (simp add: mk_row_def split_def comp_def)
      also have "\<dots> = [m + 1 .. m + int (length students)]"
        using len by (simp only: map_fst_zip)
      finally show ?thesis
        using r w a by (simp add: rows_def)
    qed
    from q r exact show ?thesis by blast
  qed
  from read_first then_begin then_prepare succeeds created show ?thesis by blast
qed

text \<open>
  Three students on a table whose largest id is 5 get the ids 6, 7 and 8. When every
  call fails, the answer is the one of the read; when only the read succeeds, it is the
  error of \<^verbatim>\<open>BeginTx\<close>.
\<close>

theorem bulkInsertStudents_consecutive_ids_witness:
  "status (fst (bulkInsertStudents no_faults
     [mk_row 2 ''Bo'' 19 3 ''Chess'', mk_row 5 ''Cy'' 22 2 ''Band'']
     (Inr [\<lparr>Name = ''Di'', Age = 20, GPA = 4, OrganizationName = ''Band''\<rparr>,
           \<lparr>Name = ''Ed'', Age = 21, GPA = 3, OrganizationName = ''Chess''\<rparr>,
           \<lparr>Name = ''Fay'', Age = 23, GPA = 2, OrganizationName = ''Band''\<rparr>]))) = 201
   \<and> INT64_MIN \<le> 5 \<and> 5 + 3 \<le> INT64_MAX
   \<and> map ID (snd (bulkInsertStudents no_faults
     [mk_row 2 ''Bo'' 19 3 ''Chess'', mk_row 5 ''Cy'' 22 2 ''Band'']
     (Inr [\<lparr>Name = ''Di'', Age = 20, GPA = 4, OrganizationName = ''Band''\<rparr>,
           \<lparr>Name = ''Ed'', Age = 21, GPA = 3, OrganizationName = ''Chess''\<rparr>,
           \<lparr>Name = ''Fay'', Age = 23, GPA = 2, OrganizationName = ''Band''\<rparr>]))) = [2, 5, 6, 7, 8]
   \<and> bulkInsertStudents (\<lambda>c. Some (Fault ''closed''))
     [mk_row 2 ''Bo'' 19 3 ''Chess'', mk_row 5 ''Cy'' 22 2 ''Band'']
     (Inr [\<lparr>Name = ''Di'', Age = 20, GPA = 4, OrganizationName = ''Band''\<rparr>])
     = (http_Error (Msg ''Failed to get max ID for bulk insert'') 500,
        [mk_row 2 ''Bo'' 19 3 ''Chess'', mk_row 5 ''Cy'' 22 2 ''Band''])
   \<and> bulkInsertStudents (\<lambda>c. if c = QueryRow then None else Some (Fault ''closed''))
     [mk_row 2 ''Bo'' 19 3 ''Chess'', mk_row 5 ''Cy'' 22 2 ''Band'']
     (Inr [\<lparr>Name = ''Di'', Age = 20, GPA = 4, OrganizationName = ''Band''\<rparr>])
     = (http_Error (MsgErr [] (Fault ''closed'')) 500,
        [mk_row 2 ''Bo'' 19 3 ''Chess'', mk_row 5 ''Cy'' 22 2 ''Band''])"
proof -
  let ?T = "[mk_row 2 ''Bo'' 19 3 ''Chess'', mk_row 5 ''Cy'' 22 2 ''Band'']"
  let ?S = "[\<lparr>Name = ''Di'', Age = 20, GPA = 4, OrganizationName = ''Band''\<rparr>,
           \<lparr>Name = ''Ed'', Age = 21, GPA = 3, OrganizationName = ''Chess''\<rparr>,
           \<lparr>Name = ''Fay'', Age = 23, GPA = 2, OrganizationName = ''Band''\<rparr>]"
  let ?D = "[\<lparr>Name = ''Di'', Age = 20, GPA = 4, OrganizationName = ''Band''\<rparr>]"
  let ?rows = "assign_ids (wrap64 ((if ?T = [] then 0 else Max (set (map ID ?T))) + 1)) ?S"
  have rows: "?rows = [mk_row 6 ''Di'' 20 4 ''Band'', mk_row 7 ''Ed'' 21 3 ''Chess'',
                       mk_row 8 ''Fay'' 23 2 ''Band'']"
    by (simp add: wrap64_def mk_row_sel)
  have every: "\<forall>j<length ?S. \<not> isl (exec_insert no_faults j (?T @ take j ?rows) (?rows ! j))"
    unfolding rows
    by (simp add: less_Suc_eq exec_insert_def insert_row_def no_faults_def mk_row_sel
          INT32_MIN_def INT32_MAX_def)
  have nf: "no_faults QueryRow = None \<and> no_faults BeginTx = None
      \<and> no_faults Prepare = None \<and> no_faults Commit = None"
    by (simp add: no_faults_def)
  note main = bulkInsertStudents_consecutive_ids
    [where flt = no_faults and t = ?T and students = ?S and e = "Fault ''closed''"]
  from main nf every
  have created: "status (fst (bulkInsertStudents no_faults ?T (Inr ?S))) = 201"
    by blast
  have range: "INT64_MIN \<le> 5 \<and> 5 + 3 \<le> INT64_MAX"
    by (simp add: INT64_MIN_def INT64_MAX_def)
  from main created
  have "INT64_MIN \<le> (if ?T = [] then 0 else Max (set (map ID ?T)))
        \<and> (if ?T = [] then 0 else Max (set (map ID ?T))) + int (length ?S) \<le> INT64_MAX
      \<longrightarrow> map ID (snd (bulkInsertStudents no_faults ?T (Inr ?S)))
          = map ID ?T @ [(if ?T = [] then 0 else Max (set (map ID ?T))) + 1 ..
               (if ?T = [] then 0 else Max (set (map ID ?T))) + int (length ?S)]"
    by blast
  with range
  have ids: "map ID (snd (bulkInsertStudents no_faults ?T (Inr ?S))) = [2, 5, 6, 7, 8]"
    by (simp add: mk_row_sel upto_rec1)
  from bulkInsertStudents_consecutive_ids
    [where flt = "\<lambda>c. Some (Fault ''closed'')" and t = ?T and students = ?D
      and e = "Fault ''closed''"]
  have first: "bulkInsertStudents (\<lambda>c. Some (Fault ''closed'')) ?T (Inr ?D)
     = (http_Error (Msg ''Failed to get max ID for bulk insert'') 500, ?T)"
    by simp
  from bulkInsertStudents_consecutive_ids
    [where flt = "\<lambda>c. if c = QueryRow then None else Some (Fault ''closed'')"
      and t = ?T and students = ?D and e = "Fault ''closed''"]
  have second: "bulkInsertStudents
       (\<lambda>c. if c = QueryRow then None else Some (Fault ''closed'')) ?T (Inr ?D)
     = (http_Error (MsgErr [] (Fault ''closed'')) 500, ?T)"
    by simp
  from created range ids first second show ?thesis
    by (intro conjI) simp_all
qed

text \<open>
  Claim C3. A bulk insert is all or nothing: either it answers 201 with the row count and
  every row is in the table, or it answers 500 and the table is exactly as before. When
  the execution for row \<open>k\<close> is the first that fails, with the error \<open>e\<close>, the answer is
  500 with the text \<^verbatim>\<open>Transaction failed due to database error: \<close> followed by \<open>e\<close>, and the
  table is unchanged. When no call fails, the answer is 201 and all rows are committed.
\<close>

theorem bulkInsertStudents_atomic:
  fixes flt t students k e
  defines "R \<equiv> bulkInsertStudents flt t (Inr students)"
  defines "m \<equiv> (if t = [] then 0 else Max (set (map ID t)))"
  defines "rows \<equiv> assign_ids (wrap64 (m + 1)) students"
  shows "((status (fst R) = 201
            \<and> body (fst R) = BulkJSON ''Bulk insert successful'' (length students)
            \<and> snd R = t @ rows)
          \<or> (status (fst R) = 500 \<and> snd R = t))
       \<and> (flt QueryRow = None \<and> flt BeginTx = None \<and> flt Prepare = None
            \<and> k < length students
            \<and> (\<forall>j<k. \<not> isl (exec_insert flt j (t @ take j rows) (rows ! j)))
            \<and> exec_insert flt k (t @ take k rows) (rows ! k) = Inl e
          \<longrightarrow> R = (http_Error
                     (MsgErr ''Transaction failed due to database error: '' e) 500, t))
       \<and> (flt QueryRow = None \<and> flt BeginTx = None \<and> flt Prepare = None
            \<and> flt Commit = None
            \<and> (\<forall>j<length students. \<not> isl (exec_insert flt j (t @ take j rows) (rows ! j)))
          \<longrightarrow> R = (\<lparr>status = 201,
                      body = BulkJSON ''Bulk insert successful'' (length students)\<rparr>,
                    t @ rows))"
proof -
  have m: "m = coalesce_max_id t"
    by (simp add: m_def coalesce_max_id_eq)
  have all_or_nothing:
    "(status (fst R) = 201
        \<and> body (fst R) = BulkJSON ''Bulk insert successful'' (length students)
        \<and> snd R = t @ rows)
     \<or> (status (fst R) = 500 \<and> snd R = t)"
  proof (cases "status (fst R) = 201")
    case True
    with bulkInsertStudents_201 [of flt t students] show ?thesis
      by (simp add: R_def rows_def m)
  next
    case False
    then show ?thesis
      unfolding R_def bulkInsertStudents_def
      by (auto simp: query_max_id_def Let_def http_Error_def
            split: option.splits sum.splits)
  qed
  have fails: "R = (http_Error
                     (MsgErr ''Transaction failed due to database error: '' e) 500, t)"
    if "flt QueryRow = None" "flt BeginTx = None" "flt Prepare = None"
      and k: "k < length students"
      and before: "\<forall>j<k. \<not> isl (exec_insert flt j (t @ take j rows) (rows ! j))"
      and at: "exec_insert flt k (t @ take k rows) (rows ! k) = Inl e"
  proof -
    have "bulk_loop flt 0 t (wrap64 (m + 1)) students = Inl e"
      using k before at unfolding rows_def
      by (intro bulk_loop_fails [of k]) simp_all
    with that(1-3) show ?thesis
      by (simp add: R_def bulkInsertStudents_def query_max_id_def m)
  qed
  have succeeds: "R = (\<lparr>status = 201,
                      body = BulkJSON ''Bulk insert successful'' (length students)\<rparr>,
                    t @ rows)"
    if "flt QueryRow = None" "flt BeginTx = None" "flt Prepare = None" "flt Commit = None"
      and every: "\<forall>j<length students. \<not> isl (exec_insert flt j (t @ take j rows) (rows ! j))"
  proof -
    have "bulk_loop flt 0 t (wrap64 (m + 1)) students = Inr (t @ rows)"
      using every unfolding rows_def
      by (intro bulk_loop_succeeds) simp_all
    with that(1-4) show ?thesis
      by (simp add: R_def bulkInsertStudents_def query_max_id_def m)
  qed
  from all_or_nothing fails succeeds show ?thesis by blast
qed

text \<open>
  Row 2 of 3 has an age that the \<^verbatim>\<open>INTEGER\<close> column rejects: the first row was executed,
  the table is unchanged all the same.
\<close>

theorem bulkInsertStudents_atomic_witness:
  "(1::nat) < length [\<lparr>Name = ''Di'', Age = 20, GPA = 4, OrganizationName = ''Band''\<rparr>,
           \<lparr>Name = ''Ed'', Age = 3000000000, GPA = 3, OrganizationName = ''Chess''\<rparr>,
           \<lparr>Name = ''Fay'', Age = 23, GPA = 2, OrganizationName = ''Band''\<rparr>]
   \<and> exec_insert no_faults 0 [mk_row 5 ''Cy'' 22 2 ''Band''] (mk_row 6 ''Di'' 20 4 ''Band'')
       = Inr [mk_row 5 ''Cy'' 22 2 ''Band'', mk_row 6 ''Di'' 20 4 ''Band'']
   \<and> exec_insert no_faults 1 [mk_row 5 ''Cy'' 22 2 ''Band'', mk_row 6 ''Di'' 20 4 ''Band'']
         (mk_row 7 ''Ed'' 3000000000 3 ''Chess'')
       = Inl IntegerOutOfRange
   \<and> bulkInsertStudents no_faults [mk_row 5 ''Cy'' 22 2 ''Band'']
     (Inr [\<lparr>Name = ''Di'', Age = 20, GPA = 4, OrganizationName = ''Band''\<rparr>,
           \<lparr>Name = ''Ed'', Age = 3000000000, GPA = 3, OrganizationName = ''Chess''\<rparr>,
           \<lparr>Name = ''Fay'', Age = 23, GPA = 2, OrganizationName = ''Band''\<rparr>])
       = (http_Error (MsgErr ''Transaction failed due to database error: '' IntegerOutOfRange)
            500,
          [mk_row 5 ''Cy'' 22 2 ''Band''])"
proof -
  let ?T = "[mk_row 5 ''Cy'' 22 2 ''Band'']"
  let ?S = "[\<lparr>Name = ''Di'', Age = 20, GPA = 4, OrganizationName = ''Band''\<rparr>,
           \<lparr>Name = ''Ed'', Age = 3000000000, GPA = 3, OrganizationName = ''Chess''\<rparr>,
           \<lparr>Name = ''Fay'', Age = 23, GPA = 2, OrganizationName = ''Band''\<rparr>]"
  let ?rows = "assign_ids (wrap64 ((if ?T = [] then 0 else Max (set (map ID ?T))) + 1)) ?S"
  have rows: "?rows = [mk_row 6 ''Di'' 20 4 ''Band'', mk_row 7 ''Ed'' 3000000000 3 ''Chess'',
                       mk_row 8 ''Fay'' 23 2 ''Band'']"
    by (simp add: wrap64_def mk_row_sel)
  have first: "exec_insert no_faults 0 ?T (mk_row 6 ''Di'' 20 4 ''Band'')
       = Inr [mk_row 5 ''Cy'' 22 2 ''Band'', mk_row 6 ''Di'' 20 4 ''Band'']"
    by (simp add: exec_insert_def insert_row_def no_faults_def mk_row_sel
          INT32_MIN_def INT32_MAX_def)
  have second: "exec_insert no_faults 1
         [mk_row 5 ''Cy'' 22 2 ''Band'', mk_row 6 ''Di'' 20 4 ''Band'']
         (mk_row 7 ''Ed'' 3000000000 3 ''Chess'') = Inl IntegerOutOfRange"
    by (simp add: exec_insert_def insert_row_def no_faults_def mk_row_sel
          INT32_MIN_def INT32_MAX_def)
  have before: "\<forall>j<1. \<not> isl (exec_insert no_faults j (?T @ take j ?rows) (?rows ! j))"
    unfolding rows using first by simp
  have at: "exec_insert no_faults 1 (?T @ take 1 ?rows) (?rows ! 1) = Inl IntegerOutOfRange"
    unfolding rows using second by simp
  from bulkInsertStudents_atomic [where flt = no_faults and t = ?T and students = ?S
      and k = 1 and e = IntegerOutOfRange] before at
  have "bulkInsertStudents no_faults ?T (Inr ?S)
       = (http_Error (MsgErr ''Transaction failed due to database error: '' IntegerOutOfRange)
            500, ?T)"
    by (simp add: no_faults_def)
  with first second show ?thesis by simp
qed

text \<open>
  Claim C5 says that a bulk insert validates and normalizes each row as the single insert
  does. \<^verbatim>\<open>bulkInsertStudents\<close> does neither: the row below, with an age of -1, a GPA of
  5, a name with spaces around it and no organization, is stored as it came and answered
  with 201, where \<^verbatim>\<open>insertStudent\<close> answers 400 to the same fields.
\<close>

theorem bulkInsertStudents_skips_validation:
  "bulkInsertStudents no_faults []
     (Inr [\<lparr>Name = '' Bob '', Age = - 1, GPA = 5, OrganizationName = []\<rparr>])
   = (\<lparr>status = 201, body = BulkJSON ''Bulk insert successful'' 1\<rparr>,
      [mk_row 1 '' Bob '' (- 1) 5 []])
   \<and> insertStudent no_faults []
     (Inr \<lparr>Name = '' Bob '', Age = - 1, GPA = 5, OrganizationName = []\<rparr>)
   = (http_Error (Msg ''Invalid age'') 400, [])"
  by code_simp

section \<open>Update\<close>

text \<open>
  Doubling the quotes makes the literal end where the format string closes it: the engine
  reads back the string that was printed, whatever it contains.
\<close>

lemma read_literal_plain:
  "c \<noteq> CHR 0x27 \<Longrightarrow> xs \<noteq> [] \<Longrightarrow>
   read_literal (c # xs) = map_option (apfst ((#) c)) (read_literal xs)"
  by (cases xs) auto

lemma read_literal_close:
  "rest = [] \<or> hd rest \<noteq> CHR 0x27 \<Longrightarrow> read_literal (CHR 0x27 # rest) = Some ([], rest)"
  by (cases rest) auto

lemma ReplaceAll_quote_simps:
  "ReplaceAll_quote [] = []"
  "ReplaceAll_quote (c # s) = (if c = CHR 0x27 then [c, c] else [c]) @ ReplaceAll_quote s"
  by (simp_all add: ReplaceAll_quote_def)

lemma read_literal_escape:
  "rest = [] \<or> hd rest \<noteq> CHR 0x27 \<Longrightarrow>
   read_literal (ReplaceAll_quote s @ CHR 0x27 # rest) = Some (s, rest)"
proof (induction s)
  case Nil
  then show ?case by (simp add: ReplaceAll_quote_simps read_literal_close)
next
  case (Cons c s)
  then show ?case
    by (cases "c = CHR 0x27") (simp_all add: ReplaceAll_quote_simps read_literal_plain)
qed

lemma sql_string_escape:
  "rest = [] \<or> hd rest \<noteq> CHR 0x27 \<Longrightarrow> sql_string (ReplaceAll_quote s) rest = Some s"
  by (simp add: sql_string_def read_literal_escape)

lemma exec_update_ids:
  "exec_update flt k t n a g org i = Inr t' \<Longrightarrow> map ID t' = map ID t"
  by (auto simp: exec_update_def split: option.splits if_splits prod.splits)

lemma Atoi_examples:
  "Atoi ''20'' = (20, None)" "Atoi ''25'' = (25, None)" "Atoi ''abc'' = (0, Some ErrSyntax)"
  "Atoi ''7'' = (7, None)"
  by code_simp+

text \<open>
  Claim C9, as the code has it. The handler checks the route id, the body, the age and
  the GPA before it looks the id up, so an update of an id that is not in the table is
  answered with 404 when the id is a number, the body decodes, age and GPA are in range
  and the existence query itself succeeds. In every case an update of an absent id
  leaves the table exactly as it was and is not answered with 200. The 404 comes for
  every behaviour of \<^verbatim>\<open>BeginTx\<close>, of the statement and of \<^verbatim>\<open>Commit\<close>: none of them is
  called when the id is absent.
\<close>

theorem updateStudent_missing_id:
  "(fst (Atoi idStr) \<notin> set (map ID t) \<longrightarrow>
      snd (updateStudent flt t idStr b) = t \<and> status (fst (updateStudent flt t idStr b)) \<noteq> 200)
   \<and> (Atoi idStr = (i, None) \<and> i \<notin> set (map ID t)
        \<and> 0 \<le> Age s \<and> Age s \<le> 120 \<and> 0 \<le> GPA s \<and> GPA s \<le> 4 \<and> flt QueryRow = None
      \<longrightarrow> updateStudent flt t idStr (Inr s) = (jsonError 404 (Msg ''Student not found''), t))"
proof (intro conjI impI)
  assume "fst (Atoi idStr) \<notin> set (map ID t)"
  then show "snd (updateStudent flt t idStr b) = t"
    by (auto simp: updateStudent_def Let_def query_exists_def filter_empty_conv
          split: prod.splits option.splits sum.splits)
next
  assume "fst (Atoi idStr) \<notin> set (map ID t)"
  then show "status (fst (updateStudent flt t idStr b)) \<noteq> 200"
    by (auto simp: updateStudent_def Let_def query_exists_def filter_empty_conv jsonError_def
          split: prod.splits option.splits sum.splits)
next
  assume "Atoi idStr = (i, None) \<and> i \<notin> set (map ID t)
        \<and> 0 \<le> Age s \<and> Age s \<le> 120 \<and> 0 \<le> GPA s \<and> GPA s \<le> 4 \<and> flt QueryRow = None"
  then show "updateStudent flt t idStr (Inr s) = (jsonError 404 (Msg ''Student not found''), t)"
    by (auto simp: updateStudent_def Let_def query_exists_def filter_empty_conv
          normalize_def default_org_def)
qed

text \<open>
  Id 7 is absent, the fields are valid, and every call but the existence query would
  fail: the answer is 404 and the table is unchanged.
\<close>

theorem updateStudent_missing_id_witness:
  "fst (Atoi ''7'') \<notin> set (map ID [mk_row 5 ''Cy'' 22 2 ''Band'', mk_row 6 ''Di'' 20 4 ''Band''])
   \<and> Atoi ''7'' = (7, None)
   \<and> (0::int) \<le> 20 \<and> (20::int) \<le> 120 \<and> (0::rat) \<le> 3 \<and> (3::rat) \<le> 4
   \<and> (\<lambda>c. if c = QueryRow then None else Some (Fault ''closed'')) QueryRow = None
   \<and> updateStudent (\<lambda>c. if c = QueryRow then None else Some (Fault ''closed''))
        [mk_row 5 ''Cy'' 22 2 ''Band'', mk_row 6 ''Di'' 20 4 ''Band'']
        ''7'' (Inr \<lparr>Name = ''Ed'', Age = 20, GPA = 3, OrganizationName = ''Chess''\<rparr>)
      = (jsonError 404 (Msg ''Student not found''),
         [mk_row 5 ''Cy'' 22 2 ''Band'', mk_row 6 ''Di'' 20 4 ''Band''])"
  using updateStudent_missing_id [of "''7''"
      "[mk_row 5 ''Cy'' 22 2 ''Band'', mk_row 6 ''Di'' 20 4 ''Band'']"
      "\<lambda>c. if c = QueryRow then None else Some (Fault ''closed'')"
      "Inr \<lparr>Name = ''Ed'', Age = 20, GPA = 3, OrganizationName = ''Chess''\<rparr>" 7
      "\<lparr>Name = ''Ed'', Age = 20, GPA = 3, OrganizationName = ''Chess''\<rparr>"]
  by (simp add: Atoi_examples mk_row_sel)

text \<open>
  The claim as it is written, that updating an absent id returns 404, fails on a body
  that does not pass validation: with an age of -1 the answer is 400, from the check
  that precedes the lookup.
\<close>

theorem updateStudent_missing_id_counterexample:
  "7 \<notin> set (map ID [mk_row 5 ''Cy'' 22 2 ''Band'', mk_row 6 ''Di'' 20 4 ''Band''])
   \<and> updateStudent no_faults [mk_row 5 ''Cy'' 22 2 ''Band'', mk_row 6 ''Di'' 20 4 ''Band'']
        ''7'' (Inr \<lparr>Name = ''Ed'', Age = - 1, GPA = 3, OrganizationName = ''Chess''\<rparr>)
      = (jsonError 400 (Msg ''Age out of range''),
         [mk_row 5 ''Cy'' 22 2 ''Band'', mk_row 6 ''Di'' 20 4 ''Band''])"
  by code_simp

text \<open>
  What an update does on an id that is present, with valid fields and no failing call:
  it answers 200, and the rows with that id get the trimmed name, the age, the trimmed
  organization (defaulted when empty) and the GPA as \<^verbatim>\<open>%.2f\<close> prints it; ids and all
  other rows stay as they were. A GPA of at most two decimals is printed as it is.
\<close>

lemma updateStudent_full_replace:
  assumes "Atoi idStr = (i, None)" and "i \<in> set (map ID t)"
    and "0 \<le> Age s" "Age s \<le> 120" "0 \<le> GPA s" "GPA s \<le> 4"
    and "flt QueryRow = None" "flt BeginTx = None" "flt (Exec 0) = None" "flt Commit = None"
  shows "updateStudent flt t idStr (Inr s) =
     (\<lparr>status = 200, body = MessageJSON ''Student updated successfully''\<rparr>,
      map (\<lambda>r. if ID r = i
               then r\<lparr>Name := TrimSpace (Name s), Age := Age s, GPA := fmt_2f (GPA s),
                      OrganizationName :=
                        (if TrimSpace (OrganizationName s) = [] then ''No Organization''
                         else TrimSpace (OrganizationName s))\<rparr>
               else r) t)"
proof -
  have ex: "length (filter (\<lambda>r. ID r = i) t) \<noteq> 0"
    using assms(2) by (auto simp: filter_empty_conv)
  show ?thesis
    using assms ex
    by (simp add: updateStudent_def Let_def query_exists_def normalize_def default_org_def
          exec_update_def sql_string_escape after_name_def after_org_def
          INT32_MIN_def INT32_MAX_def)
qed

lemma fmt_2f_two_decimals: "fmt_2f (of_int n / 100) = of_int n / 100"
  by (simp add: fmt_2f_def round_half_even_def)

text \<open>
  Claim C4 says that after an update the row's GPA equals the request value exactly.
  \<^verbatim>\<open>updateStudent\<close> prints the GPA into the statement text with \<^verbatim>\<open>%.2f\<close>, so the row
  gets the value rounded to two decimals: a request with the GPA 3.375 leaves 3.38 in the
  row, where \<^verbatim>\<open>insertStudent\<close>, which binds the value to the statement, stores 3.375.
\<close>

theorem updateStudent_rounds_gpa:
  "updateStudent no_faults [mk_row 1 ''A'' 20 3 ''X''] ''1''
     (Inr \<lparr>Name = ''A'', Age = 20, GPA = 27 / 8, OrganizationName = ''X''\<rparr>)
   = (\<lparr>status = 200, body = MessageJSON ''Student updated successfully''\<rparr>,
      [mk_row 1 ''A'' 20 (169 / 50) ''X''])
   \<and> insertStudent no_faults []
     (Inr \<lparr>Name = ''A'', Age = 20, GPA = 27 / 8, OrganizationName = ''X''\<rparr>)
   = (\<lparr>status = 201, body = CreatedJSON 1 ''Student created successfully''\<rparr>,
      [mk_row 1 ''A'' 20 (27 / 8) ''X''])"
  by code_simp

section \<open>Search\<close>








section \<open>Filter\<close>

text \<open>
  \<^verbatim>\<open>strings.Split\<close> cuts at every comma and nowhere else: joining the parts with commas
  gives the string back, and no part contains a comma. A parameter that \<^verbatim>\<open>Atoi\<close> rejects
  for its syntax has the value 0.
\<close>

lemma Split_comma_nonempty: "Split_comma s \<noteq> []"
  by (induction s) (auto split: list.splits)

lemma Split_comma_Join: "Join_comma (Split_comma s) = s"
proof (induction s)
  case Nil
  then show ?case by simp
next
  case (Cons c s)
  obtain w ws where sp: "Split_comma s = w # ws"
    using Split_comma_nonempty [of s] by (cases "Split_comma s") auto
  show ?case
  proof (cases "c = CHR '',''")
    case True
    with Cons sp show ?thesis by simp
  next
    case False
    have "Join_comma ((c # w) # ws) = c # Join_comma (w # ws)"
      by (cases ws) auto
    with False Cons sp show ?thesis by simp
  qed
qed

lemma Split_comma_no_comma: "w \<in> set (Split_comma s) \<Longrightarrow> CHR '','' \<notin> set w"
proof (induction s arbitrary: w)
  case Nil
  then show ?case by simp
next
  case (Cons c s)
  then show ?case
    by (auto split: if_splits list.splits)
qed

lemma Atoi_syntax_zero: "snd (Atoi x) = Some ErrSyntax \<Longrightarrow> fst (Atoi x) = 0"
  by (auto simp: Atoi_def Let_def split: list.splits if_splits)

text \<open>
  Claim C7. \<^verbatim>\<open>filterStudents\<close> never changes the table and answers 200 or, when the
  engine fails, 500. When the engine does not fail, the answer is 200 with exactly the
  rows that satisfy every criterion that is present: the age between the two bounds,
  both included, if both age parameters are non-empty; the GPA between its two bounds
  likewise; the organization equal to one of the parts of the list cut at the commas,
  untrimmed, if the list is non-empty. A criterion that is not present puts no condition
  on the row. The bounds are the values \<^verbatim>\<open>Atoi\<close> and \<^verbatim>\<open>ParseFloat\<close> return, whatever
  error comes with them; an age parameter rejected for its syntax is the bound 0.
\<close>

theorem filterStudents_conjunctive:
  fixes pf flt t ageMinStr ageMaxStr gpaMinStr gpaMaxStr orgsStr
  defines "R \<equiv> filterStudents pf flt t ageMinStr ageMaxStr gpaMinStr gpaMaxStr orgsStr"
  defines "sel \<equiv> filter (\<lambda>s.
       (ageMinStr \<noteq> [] \<and> ageMaxStr \<noteq> [] \<longrightarrow>
          fst (Atoi ageMinStr) \<le> Age s \<and> Age s \<le> fst (Atoi ageMaxStr))
     \<and> (gpaMinStr \<noteq> [] \<and> gpaMaxStr \<noteq> [] \<longrightarrow>
          fst (pf gpaMinStr) \<le> GPA s \<and> GPA s \<le> fst (pf gpaMaxStr))
     \<and> (orgsStr \<noteq> [] \<longrightarrow> OrganizationName s \<in> set (Split_comma orgsStr))) t"
  shows "snd R = t
     \<and> (status (fst R) = 200 \<or> status (fst R) = 500)
     \<and> (flt Query = None \<and> (sel = [] \<or> flt Scan = None)
          \<longrightarrow> fst R = \<lparr>status = 200, body = StudentsJSON sel\<rparr>)
     \<and> (status (fst R) = 200 \<longrightarrow> body (fst R) = StudentsJSON sel)
     \<and> (snd (Atoi ageMinStr) = Some ErrSyntax \<longrightarrow> fst (Atoi ageMinStr) = 0)
     \<and> (snd (Atoi ageMaxStr) = Some ErrSyntax \<longrightarrow> fst (Atoi ageMaxStr) = 0)
     \<and> Join_comma (Split_comma orgsStr) = orgsStr
     \<and> (\<forall>w \<in> set (Split_comma orgsStr). CHR '','' \<notin> set w)"
proof -
  have sel: "select_where
      (filter_conds pf ageMinStr ageMaxStr gpaMinStr gpaMaxStr orgsStr) t = sel"
    unfolding sel_def select_where_def filter_conds_def Let_def
    by (rule filter_cong) auto
  have "snd R = t"
    by (auto simp: R_def filterStudents_def Let_def split: option.splits)
  moreover have "status (fst R) = 200 \<or> status (fst R) = 500"
    by (auto simp: R_def filterStudents_def Let_def http_Error_def split: option.splits)
  moreover have "fst R = \<lparr>status = 200, body = StudentsJSON sel\<rparr>"
    if "flt Query = None \<and> (sel = [] \<or> flt Scan = None)"
    using that by (auto simp: R_def filterStudents_def sel)
  moreover have "body (fst R) = StudentsJSON sel" if "status (fst R) = 200"
    using that
    by (auto simp: R_def filterStudents_def sel http_Error_def split: option.splits if_splits)
  ultimately show ?thesis
    using Atoi_syntax_zero Split_comma_Join Split_comma_no_comma by blast
qed

lemma Split_comma_example: "Split_comma ''A, B'' = [''A'', '' B'']"
  by code_simp

text \<open>
  \<^verbatim>\<open>ageMin=20&ageMax=25\<close> alone selects the ages 20 to 25 whatever GPA and organization
  are. With \<^verbatim>\<open>ageMin=abc\<close> the lower bound is 0; a single GPA bound is no criterion; the
  list \<^verbatim>\<open>A, B\<close> names the organizations \<^verbatim>\<open>A\<close> and \<^verbatim>\<open> B\<close>, with its space. With a
  \<^verbatim>\<open>ParseFloat\<close> that reads \<^verbatim>\<open>3.5\<close> and returns 0 and an error on \<^verbatim>\<open>x\<close>, the parameters
  \<^verbatim>\<open>gpaMin=x&gpaMax=3.5&organizations=A\<close> select the GPAs 0 to 3.5 in organization \<^verbatim>\<open>A\<close>.
\<close>

theorem filterStudents_conjunctive_witness:
  "fst (filterStudents (\<lambda>s. if s = ''3.5'' then (7 / 2, None) else (0, Some ErrSyntax)) no_faults
      [mk_row 1 ''Al'' 19 1 ''A'', mk_row 2 ''Bo'' 20 4 ''B'', mk_row 3 ''Cy'' 25 0 '' B'',
       mk_row 4 ''Di'' 26 3 ''A'']
      ''20'' ''25'' [] [] [])
   = \<lparr>status = 200,
      body = StudentsJSON [mk_row 2 ''Bo'' 20 4 ''B'', mk_row 3 ''Cy'' 25 0 '' B'']\<rparr>
   \<and> fst (filterStudents (\<lambda>s. if s = ''3.5'' then (7 / 2, None) else (0, Some ErrSyntax)) no_faults
      [mk_row 1 ''Al'' 19 1 ''A'', mk_row 2 ''Bo'' 20 4 ''B'', mk_row 3 ''Cy'' 25 0 '' B'',
       mk_row 4 ''Di'' 26 3 ''A'']
      ''abc'' ''25'' ''3.5'' [] ''A, B'')
   = \<lparr>status = 200,
      body = StudentsJSON [mk_row 1 ''Al'' 19 1 ''A'', mk_row 3 ''Cy'' 25 0 '' B'']\<rparr>
   \<and> fst (filterStudents (\<lambda>s. if s = ''3.5'' then (7 / 2, None) else (0, Some ErrSyntax)) no_faults
      [mk_row 1 ''Al'' 19 1 ''A'', mk_row 2 ''Bo'' 20 4 ''B'', mk_row 3 ''Cy'' 25 0 '' B'',
       mk_row 4 ''Di'' 26 3 ''A'']
      [] [] ''x'' ''3.5'' ''A'')
   = \<lparr>status = 200,
      body = StudentsJSON [mk_row 1 ''Al'' 19 1 ''A'', mk_row 4 ''Di'' 26 3 ''A'']\<rparr>
   \<and> snd (Atoi ''abc'') = Some ErrSyntax \<and> fst (Atoi ''abc'') = 0"
  using
    filterStudents_conjunctive [of "\<lambda>s. if s = ''3.5'' then (7 / 2, None) else (0, Some ErrSyntax)" no_faults
      "[mk_row 1 ''Al'' 19 1 ''A'', mk_row 2 ''Bo'' 20 4 ''B'', mk_row 3 ''Cy'' 25 0 '' B'',
       mk_row 4 ''Di'' 26 3 ''A'']" "''20''" "''25''" "[]" "[]" "[]"]
    filterStudents_conjunctive [of "\<lambda>s. if s = ''3.5'' then (7 / 2, None) else (0, Some ErrSyntax)" no_faults
      "[mk_row 1 ''Al'' 19 1 ''A'', mk_row 2 ''Bo'' 20 4 ''B'', mk_row 3 ''Cy'' 25 0 '' B'',
       mk_row 4 ''Di'' 26 3 ''A'']" "''abc''" "''25''" "''3.5''" "[]" "''A, B''"]
    filterStudents_conjunctive [of "\<lambda>s. if s = ''3.5'' then (7 / 2, None) else (0, Some ErrSyntax)" no_faults
      "[mk_row 1 ''Al'' 19 1 ''A'', mk_row 2 ''Bo'' 20 4 ''B'', mk_row 3 ''Cy'' 25 0 '' B'',
       mk_row 4 ''Di'' 26 3 ''A'']" "[]" "[]" "''x''" "''3.5''" "''A''"]
  by (simp add: no_faults_def Atoi_examples Split_comma_example mk_row_sel)

section \<open>Unique ids\<close>

lemma insertStudent_table:
  "snd (insertStudent flt t b) = t
   \<or> (\<exists>r. snd (insertStudent flt t b) = t @ [r] \<and> (\<forall>x \<in> set t. ID x < ID r))"
proof -
  have gt: "\<forall>x \<in> set t. ID x < coalesce_max_id t + 1"
    using ID_le_coalesce [of _ t] by fastforce
  show ?thesis
    using gt
    by (auto simp: insertStudent_def Let_def query_next_id_def exec_insert_def insert_row_def
          mk_row_def split: sum.splits option.splits if_splits)
qed

lemma insertStudent_distinct:
  assumes "distinct (map ID t)"
  shows "distinct (map ID (snd (insertStudent flt t b)))"
  using insertStudent_table [of flt t b] assms by fastforce

lemma bulk_loop_distinct:
  "bulk_loop flt k tx i ss = Inr tx' \<Longrightarrow> distinct (map ID tx) \<Longrightarrow> distinct (map ID tx')"
proof (induction ss arbitrary: k tx i)
  case Nil
  then show ?case by simp
next
  case (Cons s ss)
  from Cons.prems(1) obtain tx1 where
    e: "exec_insert flt k tx (mk_row i (Name s) (Age s) (GPA s) (OrganizationName s)) = Inr tx1"
    and l: "bulk_loop flt (Suc k) tx1 (wrap64 (i + 1)) ss = Inr tx'"
    by (auto split: sum.splits)
  from exec_insert_Inr [OF e] Cons.prems(2) have "distinct (map ID tx1)" by simp
  with Cons.IH [OF l] show ?case .
qed

lemma bulkInsertStudents_distinct:
  assumes "distinct (map ID t)"
  shows "distinct (map ID (snd (bulkInsertStudents flt t b)))"
  using assms
  by (auto simp: bulkInsertStudents_def Let_def query_max_id_def
        split: sum.splits option.splits dest: bulk_loop_distinct)

lemma updateStudent_ids: "map ID (snd (updateStudent flt t idStr b)) = map ID t"
  by (auto simp: updateStudent_def Let_def split: prod.splits sum.splits option.splits
        dest: exec_update_ids)

lemma deleteStudent_distinct:
  assumes "distinct (map ID t)"
  shows "distinct (map ID (snd (deleteStudent cast flt t idv)))"
  using assms by (auto simp: deleteStudent_def distinct_map_filter split: option.splits)

lemma deleteStudent_removes: "set (snd (deleteStudent cast flt t idv)) \<subseteq> set t"
  by (auto simp: deleteStudent_def split: option.splits)

lemma route_distinct:
  "distinct (map ID t) \<Longrightarrow> distinct (map ID (snd (route cast flt t rq)))"
  by (cases rq)
    (simp_all add: insertStudent_distinct bulkInsertStudents_distinct updateStudent_ids
      deleteStudent_distinct)

lemma serve_distinct:
  "distinct (map ID t) \<Longrightarrow> distinct (map ID (serve cast t reqs))"
proof (induction reqs arbitrary: t)
  case Nil
  then show ?case by simp
next
  case (Cons fr reqs)
  obtain flt rq where fr: "fr = (flt, rq)" by (cases fr)
  from Cons.prems have "distinct (map ID (snd (route cast flt t rq)))"
    by (rule route_distinct)
  then show ?case
    unfolding fr by (simp add: Cons.IH)
qed

lemma bulkInsertStudents_not_201:
  "status (fst (bulkInsertStudents flt t b)) \<noteq> 201 \<Longrightarrow> snd (bulkInsertStudents flt t b) = t"
  by (auto simp: bulkInsertStudents_def Let_def query_max_id_def
        split: sum.splits option.splits)

lemma assign_ids_greater:
  assumes "INT64_MIN \<le> i" and "i + int (length ss) - 1 \<le> INT64_MAX"
    and "r \<in> set (assign_ids i ss)"
  shows "i \<le> ID r"
proof -
  have "map ID (assign_ids i ss) = map fst (zip [i .. i + int (length ss) - 1] ss)"
    using assign_ids_upto [OF assms(1,2)] by (simp add: mk_row_def split_def comp_def)
  also have "\<dots> = [i .. i + int (length ss) - 1]"
    by (rule map_fst_zip) simp
  finally have "set (map ID (assign_ids i ss)) = {i .. i + int (length ss) - 1}"
    by simp
  with assms(3) have "ID r \<in> {i .. i + int (length ss) - 1}"
    by (metis image_eqI set_map)
  then show ?thesis by simp
qed

lemma bulkInsertStudents_table:
  fixes flt t students
  defines "m \<equiv> (if t = [] then 0 else Max (set (map ID t)))"
  assumes lo: "INT64_MIN \<le> m" and hi: "m + int (length students) \<le> INT64_MAX"
  shows "snd (bulkInsertStudents flt t (Inr students)) = t
     \<or> (\<exists>rows. snd (bulkInsertStudents flt t (Inr students)) = t @ rows
            \<and> (\<forall>r \<in> set rows. \<forall>x \<in> set t. ID x < ID r))"
proof (cases "status (fst (bulkInsertStudents flt t (Inr students))) = 201")
  case False
  then show ?thesis by (simp add: bulkInsertStudents_not_201)
next
  case True
  have m: "m = coalesce_max_id t"
    by (simp add: m_def coalesce_max_id_eq)
  show ?thesis
  proof (cases students)
    case Nil
    with bulkInsertStudents_201 [OF True] show ?thesis by simp
  next
    case (Cons s ss)
    with hi have "m + 1 \<le> INT64_MAX" by simp
    with lo have w: "wrap64 (m + 1) = m + 1"
      by (intro wrap64_id) auto
    have rows: "snd (bulkInsertStudents flt t (Inr students)) = t @ assign_ids (m + 1) students"
      using bulkInsertStudents_201 [OF True] w by (simp add: m)
    have "\<forall>r \<in> set (assign_ids (m + 1) students). \<forall>x \<in> set t. ID x < ID r"
    proof (intro ballI)
      fix r x
      assume r: "r \<in> set (assign_ids (m + 1) students)" and x: "x \<in> set t"
      have "m + 1 \<le> ID r"
        using lo hi r by (intro assign_ids_greater [of "m + 1" students]) auto
      moreover have "ID x \<le> m"
        using ID_le_coalesce [OF x] by (simp add: m)
      ultimately show "ID x < ID r" by simp
    qed
    with rows show ?thesis by blast
  qed
qed

text \<open>
  Claim C10. Whatever requests to the four writing routes are served one after the other
  on the empty table, with whatever engine failures, the ids in the table are pairwise
  distinct; and each single request keeps them distinct. A single insert leaves the
  table as it was or appends one row whose id is greater than every id present; so
  does a bulk insert with its rows, for ids within 64 bits; an update leaves the list of
  ids as it was; a delete leaves only rows that were there.
\<close>

theorem ids_pairwise_distinct:
  "distinct (map ID (serve cast [] reqs))
   \<and> (distinct (map ID t) \<longrightarrow> distinct (map ID (snd (route cast flt t rq))))
   \<and> (snd (insertStudent flt t b) = t
        \<or> (\<exists>r. snd (insertStudent flt t b) = t @ [r] \<and> (\<forall>x \<in> set t. ID x < ID r)))
   \<and> (INT64_MIN \<le> (if t = [] then 0 else Max (set (map ID t)))
        \<and> (if t = [] then 0 else Max (set (map ID t))) + int (length students) \<le> INT64_MAX
      \<longrightarrow> snd (bulkInsertStudents flt t (Inr students)) = t
        \<or> (\<exists>rows. snd (bulkInsertStudents flt t (Inr students)) = t @ rows
              \<and> (\<forall>r \<in> set rows. \<forall>x \<in> set t. ID x < ID r)))
   \<and> map ID (snd (updateStudent flt t idStr b)) = map ID t
   \<and> set (snd (deleteStudent cast flt t idv)) \<subseteq> set t"
  using serve_distinct [of "[]" cast reqs] route_distinct [of t cast flt rq]
    insertStudent_table [of flt t b] updateStudent_ids [of flt t idStr b]
    deleteStudent_removes [of cast flt t idv] bulkInsertStudents_table [of t students flt]
  by simp

lemma serve_example:
  "map ID (serve (\<lambda>s. if s = ''3'' then Some 3 else None) []
     [(no_faults, POST_students (Inr \<lparr>Name = ''Al'', Age = 20, GPA = 3, OrganizationName = ''A''\<rparr>)),
      (no_faults, POST_students_bulk
         (Inr [\<lparr>Name = ''Bo'', Age = 21, GPA = 3, OrganizationName = ''A''\<rparr>,
               \<lparr>Name = ''Cy'', Age = 22, GPA = 3, OrganizationName = ''B''\<rparr>])),
      (no_faults, PUT_students ''2''
         (Inr \<lparr>Name = ''Bob'', Age = 21, GPA = 4, OrganizationName = ''A''\<rparr>)),
      (no_faults, DELETE_students ''3''),
      (no_faults, POST_students (Inr \<lparr>Name = ''Di'', Age = 23, GPA = 2, OrganizationName = ''B''\<rparr>)),
      (no_faults, POST_students (Inr \<lparr>Name = ''Ed'', Age = 24, GPA = 2, OrganizationName = ''B''\<rparr>))])
   = [1, 2, 3, 4]"
  by code_simp

text \<open>
  An insert, a bulk insert of two, an update of 2, a delete of 3 and two more inserts
  leave the ids 1, 2, 3, 4.
\<close>

theorem ids_pairwise_distinct_witness:
  "distinct (map ID (serve (\<lambda>s. if s = ''3'' then Some 3 else None) []
     [(no_faults, POST_students (Inr \<lparr>Name = ''Al'', Age = 20, GPA = 3, OrganizationName = ''A''\<rparr>)),
      (no_faults, POST_students_bulk
         (Inr [\<lparr>Name = ''Bo'', Age = 21, GPA = 3, OrganizationName = ''A''\<rparr>,
               \<lparr>Name = ''Cy'', Age = 22, GPA = 3, OrganizationName = ''B''\<rparr>])),
      (no_faults, PUT_students ''2''
         (Inr \<lparr>Name = ''Bob'', Age = 21, GPA = 4, OrganizationName = ''A''\<rparr>)),
      (no_faults, DELETE_students ''3''),
      (no_faults, POST_students (Inr \<lparr>Name = ''Di'', Age = 23, GPA = 2, OrganizationName = ''B''\<rparr>)),
      (no_faults, POST_students (Inr \<lparr>Name = ''Ed'', Age = 24, GPA = 2, OrganizationName = ''B''\<rparr>))]))
   \<and> map ID (serve (\<lambda>s. if s = ''3'' then Some 3 else None) []
     [(no_faults, POST_students (Inr \<lparr>Name = ''Al'', Age = 20, GPA = 3, OrganizationName = ''A''\<rparr>)),
      (no_faults, POST_students_bulk
         (Inr [\<lparr>Name = ''Bo'', Age = 21, GPA = 3, OrganizationName = ''A''\<rparr>,
               \<lparr>Name = ''Cy'', Age = 22, GPA = 3, OrganizationName = ''B''\<rparr>])),
      (no_faults, PUT_students ''2''
         (Inr \<lparr>Name = ''Bob'', Age = 21, GPA = 4, OrganizationName = ''A''\<rparr>)),
      (no_faults, DELETE_students ''3''),
      (no_faults, POST_students (Inr \<lparr>Name = ''Di'', Age = 23, GPA = 2, OrganizationName = ''B''\<rparr>)),
      (no_faults, POST_students (Inr \<lparr>Name = ''Ed'', Age = 24, GPA = 2, OrganizationName = ''B''\<rparr>))])
     = [1, 2, 3, 4]
   \<and> distinct (map ID [mk_row 1 ''Al'' 20 3 ''A''])
   \<and> distinct (map ID (snd (route (\<lambda>s. None) no_faults [mk_row 1 ''Al'' 20 3 ''A'']
        (DELETE_students ''x''))))
   \<and> INT64_MIN \<le> 1 \<and> 1 + 2 \<le> INT64_MAX
   \<and> (snd (bulkInsertStudents no_faults [mk_row 1 ''Al'' 20 3 ''A'']
           (Inr [\<lparr>Name = ''Bo'', Age = 21, GPA = 3, OrganizationName = ''A''\<rparr>,
                 \<lparr>Name = ''Cy'', Age = 22, GPA = 3, OrganizationName = ''B''\<rparr>]))
          = [mk_row 1 ''Al'' 20 3 ''A'']
        \<or> (\<exists>rows. snd (bulkInsertStudents no_faults [mk_row 1 ''Al'' 20 3 ''A'']
           (Inr [\<lparr>Name = ''Bo'', Age = 21, GPA = 3, OrganizationName = ''A''\<rparr>,
                 \<lparr>Name = ''Cy'', Age = 22, GPA = 3, OrganizationName = ''B''\<rparr>]))
              = [mk_row 1 ''Al'' 20 3 ''A''] @ rows
            \<and> (\<forall>r \<in> set rows. \<forall>x \<in> set [mk_row 1 ''Al'' 20 3 ''A'']. ID x < ID r)))"
proof -
  let ?cast = "\<lambda>s. if s = ''3'' then Some (3::int) else None"
  let ?reqs = "[(no_faults, POST_students (Inr \<lparr>Name = ''Al'', Age = 20, GPA = 3, OrganizationName = ''A''\<rparr>)),
      (no_faults, POST_students_bulk
         (Inr [\<lparr>Name = ''Bo'', Age = 21, GPA = 3, OrganizationName = ''A''\<rparr>,
               \<lparr>Name = ''Cy'', Age = 22, GPA = 3, OrganizationName = ''B''\<rparr>])),
      (no_faults, PUT_students ''2''
         (Inr \<lparr>Name = ''Bob'', Age = 21, GPA = 4, OrganizationName = ''A''\<rparr>)),
      (no_faults, DELETE_students ''3''),
      (no_faults, POST_students (Inr \<lparr>Name = ''Di'', Age = 23, GPA = 2, OrganizationName = ''B''\<rparr>)),
      (no_faults, POST_students (Inr \<lparr>Name = ''Ed'', Age = 24, GPA = 2, OrganizationName = ''B''\<rparr>))]"
  from ids_pairwise_distinct [where cast = ?cast and reqs = ?reqs]
  have d1: "distinct (map ID (serve ?cast [] ?reqs))"
    by (rule conjunct1)
  have d2: "distinct (map ID [mk_row 1 ''Al'' 20 3 ''A''])"
    by (simp add: mk_row_sel)
  from ids_pairwise_distinct [where cast = "\<lambda>s. None" and t = "[mk_row 1 ''Al'' 20 3 ''A'']"
      and flt = no_faults and rq = "DELETE_students ''x''"] d2
  have d3: "distinct (map ID (snd (route (\<lambda>s. None) no_faults [mk_row 1 ''Al'' 20 3 ''A'']
        (DELETE_students ''x''))))"
    by blast
  have range: "INT64_MIN \<le> 1 \<and> 1 + 2 \<le> INT64_MAX"
    by (simp add: INT64_MIN_def INT64_MAX_def)
  from ids_pairwise_distinct [where t = "[mk_row 1 ''Al'' 20 3 ''A'']" and flt = no_faults
      and students = "[\<lparr>Name = ''Bo'', Age = 21, GPA = 3, OrganizationName = ''A''\<rparr>,
                 \<lparr>Name = ''Cy'', Age = 22, GPA = 3, OrganizationName = ''B''\<rparr>]"] range
  have d4: "snd (bulkInsertStudents no_faults [mk_row 1 ''Al'' 20 3 ''A'']
           (Inr [\<lparr>Name = ''Bo'', Age = 21, GPA = 3, OrganizationName = ''A''\<rparr>,
                 \<lparr>Name = ''Cy'', Age = 22, GPA = 3, OrganizationName = ''B''\<rparr>]))
          = [mk_row 1 ''Al'' 20 3 ''A'']
        \<or> (\<exists>rows. snd (bulkInsertStudents no_faults [mk_row 1 ''Al'' 20 3 ''A'']
           (Inr [\<lparr>Name = ''Bo'', Age = 21, GPA = 3, OrganizationName = ''A''\<rparr>,
                 \<lparr>Name = ''Cy'', Age = 22, GPA = 3, OrganizationName = ''B''\<rparr>]))
              = [mk_row 1 ''Al'' 20 3 ''A''] @ rows
            \<and> (\<forall>r \<in> set rows. \<forall>x \<in> set [mk_row 1 ''Al'' 20 3 ''A'']. ID x < ID r))"
    by (simp add: mk_row_sel)
  from d1 serve_example d2 d3 range d4 show ?thesis
    by (intro conjI) simp_all
qed

end
